theory Spec2Isabelle
  imports Complex_Main "HOL-Library.AList" "HOL-Library.Product_Lexorder"
begin

section \<open>Python values used by the agent package\<close>

text \<open>
  Exceptions are values. Every \<^verbatim>\<open>raise\<close> of the modelled code, and every
  exception a library call of the modelled code can throw on the modelled inputs, is an
  \<open>Inl\<close> result carrying one of these.
\<close>

datatype ErrorCode =
    VALIDATION_ERROR | UNAUTHENTICATED | PERMISSION_DENIED | NOT_FOUND
  | CONFLICT | RATE_LIMITED | INTERNAL_ERROR | DEPENDENCY_FAILURE

datatype error =
    ValueError string
  | TypeError string
  | AttributeError string
  | KeyError string
  | OverflowError string
  | ServiceError ErrorCode string "(string \<times> string) list"

text \<open>
  A \<^verbatim>\<open>datetime.date\<close> is its proleptic Gregorian ordinal
  (\<^verbatim>\<open>date.toordinal()\<close>, day 1 is 0001-01-01); the wall clock reading of a
  \<^verbatim>\<open>datetime\<close> is the number of microseconds since 0001-01-01T00:00:00. The
  creation and update times of missions, episodes and profiles are held as such
  readings: the tools stamp every one of them with \<^verbatim>\<open>now_utc()\<close>, so those of one
  repository are mutually comparable and the order of the integers is the order
  Python's comparison gives.
\<close>

type_synonym date = int
type_synonym datetime = int

definition micros_per_day :: int where
  "micros_per_day = 86400000000"

definition micros_per_hour :: int where
  "micros_per_hour = 3600000000"

definition date_min_ordinal :: date where
  "date_min_ordinal = 1"

definition date_max_ordinal :: date where
  "date_max_ordinal = 3652059"

definition datetime_date :: "datetime \<Rightarrow> date" where
  \<comment> \<open>\<^verbatim>\<open>dt.date()\<close>\<close>
  "datetime_date dt = dt div micros_per_day + 1"

definition datetime_combine_hour :: "date \<Rightarrow> int \<Rightarrow> datetime" where
  \<comment> \<open>\<^verbatim>\<open>datetime.combine(d, datetime.min.time().replace(hour=h))\<close>\<close>
  "datetime_combine_hour d h = (d - 1) * micros_per_day + h * micros_per_hour"

definition date_weekday :: "date \<Rightarrow> int" where
  \<comment> \<open>\<^verbatim>\<open>date.weekday()\<close>: Monday is 0; CPython computes \<^verbatim>\<open>(toordinal() + 6) % 7\<close>\<close>
  "date_weekday d = (d + 6) mod 7"

definition date_add_days :: "date \<Rightarrow> int \<Rightarrow> error + date" where
  \<comment> \<open>\<^verbatim>\<open>d + timedelta(days=n)\<close>: OverflowError outside year 1..9999\<close>
  "date_add_days d n =
     (if date_min_ordinal \<le> d + n \<and> d + n \<le> date_max_ordinal then Inr (d + n)
      else Inl (OverflowError ''date value out of range''))"

definition datetime_hour :: "datetime \<Rightarrow> int" where
  \<comment> \<open>\<^verbatim>\<open>dt.hour\<close>\<close>
  "datetime_hour dt = dt mod 86400000000 div 3600000000"

definition datetime_minute :: "datetime \<Rightarrow> int" where
  \<comment> \<open>\<^verbatim>\<open>dt.minute\<close>\<close>
  "datetime_minute dt = dt mod 3600000000 div 60000000"

definition datetime_second :: "datetime \<Rightarrow> int" where
  \<comment> \<open>\<^verbatim>\<open>dt.second\<close>\<close>
  "datetime_second dt = dt mod 60000000 div 1000000"

definition datetime_microsecond :: "datetime \<Rightarrow> int" where
  \<comment> \<open>\<^verbatim>\<open>dt.microsecond\<close>\<close>
  "datetime_microsecond dt = dt mod 1000000"

text \<open>
  The timestamps of a block come from several places: \<^verbatim>\<open>datetime.combine\<close> gives a
  naive \<^verbatim>\<open>datetime\<close>, \<^verbatim>\<open>now_utc()\<close> a timezone-aware one, and a caller may pass
  either. A block's timestamp therefore carries its kind: \<open>Naive w\<close> has the wall clock
  reading \<open>w\<close> and no UTC offset, \<open>Aware w off\<close> has the wall clock reading \<open>w\<close> and
  the UTC offset \<open>off\<close> (in microseconds) that its \<^verbatim>\<open>tzinfo\<close> gives for it. Python
  orders two naive values by their readings and two aware values by their UTC instants,
  and raises \<^verbatim>\<open>TypeError\<close> when asked to order a naive and an aware value.
\<close>

datatype timestamp = Naive datetime | Aware datetime int

definition is_aware :: "timestamp \<Rightarrow> bool" where
  \<comment> \<open>\<^verbatim>\<open>dt.utcoffset() is not None\<close>\<close>
  "is_aware t = (case t of Naive w \<Rightarrow> False | Aware w off \<Rightarrow> True)"

definition wall_clock :: "timestamp \<Rightarrow> datetime" where
  "wall_clock t = (case t of Naive w \<Rightarrow> w | Aware w off \<Rightarrow> w)"

definition utc_instant :: "timestamp \<Rightarrow> int" where
  \<comment> \<open>what two timestamps of one kind are ordered by\<close>
  "utc_instant t = (case t of Naive w \<Rightarrow> w | Aware w off \<Rightarrow> w - off)"

definition timestamp_date :: "timestamp \<Rightarrow> date" where
  \<comment> \<open>\<^verbatim>\<open>dt.date()\<close>: the day of the wall clock reading\<close>
  "timestamp_date t = datetime_date (wall_clock t)"

definition naive_aware_error :: error where
  "naive_aware_error =
     TypeError (''can'' @ [CHR 0x27] @ ''t compare offset-naive and offset-aware datetimes'')"

definition timestamp_less :: "timestamp \<Rightarrow> timestamp \<Rightarrow> error + bool" where
  \<comment> \<open>\<^verbatim>\<open>a < b\<close> on two \<^verbatim>\<open>datetime\<close> objects\<close>
  "timestamp_less a b =
     (if is_aware a = is_aware b then Inr (utc_instant a < utc_instant b)
      else Inl naive_aware_error)"

definition one_kind :: "timestamp list \<Rightarrow> bool" where
  \<comment> \<open>all naive or all aware\<close>
  "one_kind ts = (list_all is_aware ts \<or> list_all (\<lambda>t. \<not> is_aware t) ts)"

definition sort_by_timestamp :: "('a \<Rightarrow> timestamp) \<Rightarrow> 'a list \<Rightarrow> error + 'a list" where
  \<comment> \<open>\<^verbatim>\<open>xs.sort(key=f)\<close> with \<^verbatim>\<open>datetime\<close> keys. A sort of a list that holds a naive
      and an aware key has to compare two keys of different kinds, and that comparison
      raises; otherwise it is Python's stable sort by the instants.\<close>
  "sort_by_timestamp f xs =
     (if one_kind (map f xs) then Inr (sort_key (\<lambda>x. utc_instant (f x)) xs)
      else Inl naive_aware_error)"

fun max_by_timestamp :: "('a \<Rightarrow> timestamp) \<Rightarrow> 'a \<Rightarrow> 'a list \<Rightarrow> error + 'a" where
  \<comment> \<open>the loop of \<^verbatim>\<open>max(xs, key=f)\<close>: each further element is compared with the best
      one so far and replaces it when its key is greater\<close>
  "max_by_timestamp f best [] = Inr best"
| "max_by_timestamp f best (y # ys) =
     (case timestamp_less (f best) (f y) of
        Inl e \<Rightarrow> Inl e
      | Inr lt \<Rightarrow> max_by_timestamp f (if lt then y else best) ys)"

fun min_by_timestamp :: "('a \<Rightarrow> timestamp) \<Rightarrow> 'a \<Rightarrow> 'a list \<Rightarrow> error + 'a" where
  \<comment> \<open>the loop of \<^verbatim>\<open>min(xs, key=f)\<close>\<close>
  "min_by_timestamp f best [] = Inr best"
| "min_by_timestamp f best (y # ys) =
     (case timestamp_less (f y) (f best) of
        Inl e \<Rightarrow> Inl e
      | Inr lt \<Rightarrow> min_by_timestamp f (if lt then y else best) ys)"

section \<open>Schemas\<close>

subsection \<open>Core domain schemas (schemas/core.py)\<close>

datatype MissionKind = MK_EXAM | MK_PROJECT | MK_HABIT | MK_LIFE_ADMIN | MK_OTHER

datatype MissionStatus = MS_DRAFT | MS_ACTIVE | MS_PAUSED | MS_COMPLETED | MS_ABANDONED

datatype MissionPriority = MP_LOW | MP_MEDIUM | MP_HIGH | MP_CRITICAL

record GraphNodeRef =
  gn_graph_id :: string
  gn_node_id :: string
  gn_weight :: rat

record MissionConstraints =
  max_daily_minutes :: "int option"
  no_nights_after :: "int option"
  days_off :: "int list"

record MissionPreferences =
  preferred_block_lengths :: "int list option"
  intensity :: "string option"
  notes_for_glyph :: "string option"

definition MissionConstraints_default :: MissionConstraints where
  "MissionConstraints_default =
     \<lparr>max_daily_minutes = None, no_nights_after = None, days_off = []\<rparr>"

definition MissionPreferences_default :: MissionPreferences where
  "MissionPreferences_default =
     \<lparr>preferred_block_lengths = None, intensity = None, notes_for_glyph = None\<rparr>"

record Mission =
  m_id :: string
  m_user_id :: string
  m_title :: string
  m_description :: "string option"
  m_kind :: MissionKind
  m_status :: MissionStatus
  m_priority :: MissionPriority
  m_created_at :: datetime
  m_updated_at :: datetime
  m_planned_start_date :: "date option"
  m_deadline_date :: "date option"
  m_estimated_total_minutes :: "int option"
  m_tags :: "string list"
  m_graph_links :: "GraphNodeRef list"
  m_constraints :: MissionConstraints
  m_preferences :: MissionPreferences
  m_archived :: bool

datatype BlockStatus = PLANNED | IN_PROGRESS | COMPLETED | CANCELLED | SKIPPED

record Block =
  b_id :: string
  b_user_id :: string
  b_mission_id :: string
  b_sequence_index :: "int option"
  b_scheduled_start :: "timestamp option"
  b_scheduled_end :: "timestamp option"
  b_planned_duration_minutes :: "int option"
  b_actual_start :: "timestamp option"
  b_actual_end :: "timestamp option"
  b_status :: BlockStatus
  b_title :: "string option"
  b_plan_note :: "string option"
  b_outcome_note :: "string option"
  b_completion_ratio :: "rat option"
  b_location_hint :: "string option"
  b_device_hint :: "string option"

datatype LeakCategory =
    LC_SOCIAL | LC_VIDEO | LC_CHAT | LC_NEWS | LC_SHOPPING | LC_EMAIL | LC_GAMING
  | LC_RANDOM_WEB | LC_OTHER

record LeakEvent =
  lk_timestamp :: datetime
  lk_category :: LeakCategory
  lk_source :: string
  lk_duration_seconds :: "int option"
  lk_note :: "string option"

datatype EpisodeKind = EK_SESSION | EK_DAY | EK_MISSION | EK_META

datatype EmotionLabel = EM_VERY_LOW | EM_LOW | EM_NEUTRAL | EM_HIGH | EM_VERY_HIGH

record Episode =
  e_id :: string
  e_user_id :: string
  e_kind :: EpisodeKind
  e_created_at :: datetime
  e_mission_id :: "string option"
  e_block_id :: "string option"
  e_title :: "string option"
  e_summary :: string
  e_reflection :: "string option"
  e_mood_before :: "EmotionLabel option"
  e_mood_after :: "EmotionLabel option"
  e_focus_score :: "int option"
  e_energy_score :: "int option"
  e_time_focused_minutes :: "int option"
  e_time_leaked_minutes :: "int option"
  e_leaks :: "LeakEvent list"
  e_tags :: "string list"
  e_meta :: "(string \<times> string) list"

datatype NudgeLevel = NL_OFF | NL_SOFT | NL_NORMAL | NL_AGGRESSIVE

record UserPreferences =
  up_timezone :: string
  up_preferred_block_lengths :: "int list"
  up_typical_wake_hour :: "int option"
  up_typical_sleep_hour :: "int option"
  up_nudge_level :: NudgeLevel
  up_sideglyph_enabled :: bool
  up_browser_tracking_enabled :: bool

record UserStats =
  total_missions_created :: int
  total_blocks_completed :: int
  total_focused_minutes :: int
  avg_block_length_successful :: "int option"
  avg_start_hour_successful :: "rat option"
  night_sessions_failure_rate :: "rat option"
  morning_sessions_success_rate :: "rat option"

definition UserPreferences_default :: UserPreferences where
  "UserPreferences_default =
     \<lparr>up_timezone = ''UTC'', up_preferred_block_lengths = [25, 40],
      up_typical_wake_hour = None, up_typical_sleep_hour = None,
      up_nudge_level = NL_NORMAL, up_sideglyph_enabled = True,
      up_browser_tracking_enabled = True\<rparr>"

definition UserStats_default :: UserStats where
  "UserStats_default =
     \<lparr>total_missions_created = 0, total_blocks_completed = 0, total_focused_minutes = 0,
      avg_block_length_successful = None, avg_start_hour_successful = None,
      night_sessions_failure_rate = None, morning_sessions_success_rate = None\<rparr>"

record UserProfile =
  p_user_id :: string
  p_created_at :: datetime
  p_updated_at :: datetime
  p_display_name :: "string option"
  p_preferences :: UserPreferences
  p_stats :: UserStats
  p_persona_notes :: "string option"

subsection \<open>Request and response schemas (schemas/api.py)\<close>

datatype SurfaceType = FOCUS_DOCK | OUTORA_LIBRARY | SIDEGLYPH | MOBILE | SURFACE_OTHER

datatype EnergyLevel = EL_VERY_LOW | EL_LOW | EL_MEDIUM | EL_HIGH | EL_VERY_HIGH

datatype ReflectPeriodKind = RK_BLOCK | RK_DAY | RK_WEEK | RK_MISSION

record PlanMissionRequest =
  pm_raw_input :: string
  pm_kind :: "MissionKind option"
  pm_deadline :: "date option"
  pm_estimated_hours :: "rat option"
  pm_constraints :: "MissionConstraints option"
  pm_preferences :: "MissionPreferences option"
  pm_surface :: SurfaceType
  pm_graph_context :: "string list"

record ProposedBlock =
  pb_title :: string
  pb_plan_note :: "string option"
  pb_suggested_date :: "date option"
  pb_suggested_duration_minutes :: int
  pb_sequence_index :: int

record PlanMissionResponse =
  pr_mission :: Mission
  pr_proposed_blocks :: "ProposedBlock list"
  pr_summary :: string
  pr_rationale :: "string option"
  pr_similar_missions_note :: "string option"
  pr_warnings :: "string list"
  pr_suggestions :: "string list"

record RunSessionRequest =
  rs_mission_id :: "string option"
  rs_block_id :: "string option"
  rs_available_minutes :: "int option"
  rs_energy_level :: "EnergyLevel option"
  rs_mood_note :: "string option"
  rs_surface :: SurfaceType
  rs_is_continuation :: bool
  rs_adjustment_request :: "string option"

record SessionAction =
  sa_description :: string
  sa_estimated_minutes :: "int option"
  sa_is_stretch_goal :: bool

record RunSessionResponse =
  rr_block :: Block
  rr_actions :: "SessionAction list"
  rr_brief :: string
  rr_recommended_duration_minutes :: int
  rr_break_after_minutes :: "int option"
  rr_show_timer :: bool
  rr_enable_leak_tracking :: bool
  rr_warnings :: "string list"

record ReflectPeriodRequest =
  rp_kind :: ReflectPeriodKind
  rp_mission_id :: "string option"
  rp_block_id :: "string option"
  rp_start_date :: "date option"
  rp_end_date :: "date option"
  rp_user_reflection :: "string option"
  rp_focus_score :: "int option"
  rp_energy_score :: "int option"
  rp_surface :: SurfaceType

record PatternInsight =
  pi_description :: string
  pi_confidence :: rat
  pi_supporting_data :: "string option"
  pi_suggested_action :: "string option"

record ReflectPeriodResponse =
  rf_episode :: Episode
  rf_summary :: string
  rf_highlights :: "string list"
  rf_challenges :: "string list"
  rf_patterns :: "PatternInsight list"
  rf_total_focused_minutes :: int
  rf_total_leaked_minutes :: int
  rf_blocks_completed :: int
  rf_completion_rate :: "rat option"
  rf_updated_profile :: "UserProfile option"
  rf_suggestions :: "string list"

section \<open>Graph router (graphs/router.py)\<close>

datatype GlyphEntrypoint = PLAN_MISSION | RUN_SESSION | REFLECT_PERIOD | CHAT

fun GlyphEntrypoint_value :: "GlyphEntrypoint \<Rightarrow> string" where
  "GlyphEntrypoint_value PLAN_MISSION = ''plan_mission''"
| "GlyphEntrypoint_value RUN_SESSION = ''run_session''"
| "GlyphEntrypoint_value REFLECT_PERIOD = ''reflect_period''"
| "GlyphEntrypoint_value CHAT = ''chat''"

fun GlyphEntrypoint_name :: "GlyphEntrypoint \<Rightarrow> string" where
  "GlyphEntrypoint_name PLAN_MISSION = ''PLAN_MISSION''"
| "GlyphEntrypoint_name RUN_SESSION = ''RUN_SESSION''"
| "GlyphEntrypoint_name REFLECT_PERIOD = ''REFLECT_PERIOD''"
| "GlyphEntrypoint_name CHAT = ''CHAT''"

text \<open>
  \<^verbatim>\<open>call_graph\<close> declares \<^verbatim>\<open>entrypoint: GlyphEntrypoint\<close> and
  \<^verbatim>\<open>request: Any\<close>, and Python checks neither. An argument for \<^verbatim>\<open>entrypoint\<close> is
  a member of the enum, or a member of some other \<^verbatim>\<open>Enum\<close> class that compares equal
  to no member of \<^verbatim>\<open>GlyphEntrypoint\<close> (given by its \<^verbatim>\<open>str()\<close>), or an object
  without a \<^verbatim>\<open>value\<close> attribute (given by its type name). A request is an instance
  of one of the three request classes or an object of another type (given by its type
  name).
\<close>

datatype entrypoint_arg =
    Member GlyphEntrypoint
  | OtherEnumMember string
  | NoValueObject string

datatype request =
    PlanMissionRequest_of PlanMissionRequest
  | RunSessionRequest_of RunSessionRequest
  | ReflectPeriodRequest_of ReflectPeriodRequest
  | OtherRequest string

datatype response =
    PlanMissionResponse_of PlanMissionResponse
  | RunSessionResponse_of RunSessionResponse
  | ReflectPeriodResponse_of ReflectPeriodResponse

fun type_name :: "request \<Rightarrow> string" where
  \<comment> \<open>\<^verbatim>\<open>type(request).__name__\<close>\<close>
  "type_name (PlanMissionRequest_of _) = ''PlanMissionRequest''"
| "type_name (RunSessionRequest_of _) = ''RunSessionRequest''"
| "type_name (ReflectPeriodRequest_of _) = ''ReflectPeriodRequest''"
| "type_name (OtherRequest n) = n"

fun entrypoint_value :: "entrypoint_arg \<Rightarrow> error + string" where
  \<comment> \<open>\<^verbatim>\<open>entrypoint.value\<close>\<close>
  "entrypoint_value (Member e) = Inr (GlyphEntrypoint_value e)"
| "entrypoint_value (OtherEnumMember s) = Inr s"
| "entrypoint_value (NoValueObject t) =
     Inl (AttributeError (t @ '' object has no attribute value''))"

fun entrypoint_str :: "entrypoint_arg \<Rightarrow> string" where
  \<comment> \<open>\<^verbatim>\<open>str(entrypoint)\<close>\<close>
  "entrypoint_str (Member e) = ''GlyphEntrypoint.'' @ GlyphEntrypoint_name e"
| "entrypoint_str (OtherEnumMember s) = s"
| "entrypoint_str (NoValueObject t) = t"

definition logger_debug_kwargs :: "bool \<Rightarrow> error + unit" where
  \<comment> \<open>\<^verbatim>\<open>logger.debug("call_graph", entrypoint=..., user_id=..., request_type=...)\<close> on the
      \<^verbatim>\<open>logging.Logger\<close> that \<^verbatim>\<open>get_logger\<close> returns. \<^verbatim>\<open>Logger.debug\<close> does nothing
      when the logger is not enabled for DEBUG; when it is, it passes the keyword
      arguments on to \<^verbatim>\<open>Logger._log\<close>, which accepts none of these three names.\<close>
  "logger_debug_kwargs debug_enabled =
     (if debug_enabled
      then Inl (TypeError ''Logger._log() got an unexpected keyword argument entrypoint'')
      else Inr ())"

definition validation_error :: "string \<Rightarrow> string \<Rightarrow> error" where
  \<comment> \<open>\<^verbatim>\<open>ServiceError(code=ErrorCode.VALIDATION_ERROR, message=m, details={"entrypoint": v})\<close>\<close>
  "validation_error m v = ServiceError VALIDATION_ERROR m [(''entrypoint'', v)]"

definition call_graph ::
  "('s \<Rightarrow> string \<Rightarrow> PlanMissionRequest \<Rightarrow> error + PlanMissionResponse \<times> 's) \<Rightarrow>
   ('s \<Rightarrow> string \<Rightarrow> RunSessionRequest \<Rightarrow> error + RunSessionResponse \<times> 's) \<Rightarrow>
   ('s \<Rightarrow> string \<Rightarrow> ReflectPeriodRequest \<Rightarrow> error + ReflectPeriodResponse \<times> 's) \<Rightarrow>
   bool \<Rightarrow> 's \<Rightarrow> entrypoint_arg \<Rightarrow> string \<Rightarrow> request \<Rightarrow> error + response \<times> 's" where
  \<comment> \<open>\<^verbatim>\<open>GraphRouter.call_graph\<close>. The three functions are \<^verbatim>\<open>self.plan_mission\<close>,
      \<^verbatim>\<open>self.run_session\<close> and \<^verbatim>\<open>self.reflect_period\<close>, which only log (with
      positional arguments) and call the graph's runner on the router's repositories
      \<open>s\<close>; \<open>debug_enabled\<close> is \<^verbatim>\<open>logger.isEnabledFor(DEBUG)\<close>.\<close>
  "call_graph plan_mission run_session reflect_period debug_enabled s entrypoint user_id req =
     (case entrypoint_value entrypoint of
        Inl e \<Rightarrow> Inl e
      | Inr v \<Rightarrow>
          (case logger_debug_kwargs debug_enabled of
             Inl e \<Rightarrow> Inl e
           | Inr _ \<Rightarrow>
               if entrypoint = Member PLAN_MISSION then
                 (case req of
                    PlanMissionRequest_of r \<Rightarrow>
                      map_sum id (map_prod PlanMissionResponse_of id) (plan_mission s user_id r)
                  | _ \<Rightarrow>
                      Inl (validation_error
                            (''Expected PlanMissionRequest, got '' @ type_name req) v))
               else if entrypoint = Member RUN_SESSION then
                 (case req of
                    RunSessionRequest_of r \<Rightarrow>
                      map_sum id (map_prod RunSessionResponse_of id) (run_session s user_id r)
                  | _ \<Rightarrow>
                      Inl (validation_error
                            (''Expected RunSessionRequest, got '' @ type_name req) v))
               else if entrypoint = Member REFLECT_PERIOD then
                 (case req of
                    ReflectPeriodRequest_of r \<Rightarrow>
                      map_sum id (map_prod ReflectPeriodResponse_of id)
                        (reflect_period s user_id r)
                  | _ \<Rightarrow>
                      Inl (validation_error
                            (''Expected ReflectPeriodRequest, got '' @ type_name req) v))
               else if entrypoint = Member CHAT then
                 Inl (validation_error
                       ''Chat should be handled by GlyphAgentService, not the router'' v)
               else
                 Inl (validation_error
                       (''Unknown entrypoint: '' @ entrypoint_str entrypoint)
                       (entrypoint_str entrypoint))))"

section \<open>Shared workflow state (graphs/base.py)\<close>



text \<open>
  The values a \<^verbatim>\<open>dict[str, Any]\<close> holds. A Python dict keeps its keys in insertion
  order and has no duplicate key: it is an association list, read with \<open>map_of\<close> and
  written with \<open>AList.update\<close>.
\<close>

datatype pyval =
    PNone
  | PBool bool
  | PInt int
  | PFloat rat
  | PStr string
  | PList "pyval list"
  | PDict "(string \<times> pyval) list"







definition digit_char :: "nat \<Rightarrow> char" where
  "digit_char n = char_of (48 + n)"

















section \<open>Text helpers\<close>

fun str_nat :: "nat \<Rightarrow> string" where
  \<comment> \<open>\<^verbatim>\<open>str(n)\<close> for a natural number\<close>
  "str_nat n = (if n < 10 then [digit_char n] else str_nat (n div 10) @ [digit_char (n mod 10)])"

declare str_nat.simps [simp del]

definition str_int :: "int \<Rightarrow> string" where
  \<comment> \<open>\<^verbatim>\<open>str(i)\<close>, which is how an f-string renders an int\<close>
  "str_int i = (if i < 0 then CHR ''-'' # str_nat (nat (- i)) else str_nat (nat i))"

fun join :: "string \<Rightarrow> string list \<Rightarrow> string" where
  \<comment> \<open>\<^verbatim>\<open>sep.join(parts)\<close>\<close>
  "join sep [] = []"
| "join sep [x] = x"
| "join sep (x # y # ys) = x @ sep @ join sep (y # ys)"

definition py_isspace :: "char \<Rightarrow> bool" where
  \<comment> \<open>\<^verbatim>\<open>str.isspace\<close> on ASCII\<close>
  "py_isspace c = (let n = (of_char c :: nat) in (9 \<le> n \<and> n \<le> 13) \<or> (28 \<le> n \<and> n \<le> 32))"

fun split_acc :: "string \<Rightarrow> string \<Rightarrow> string list" where
  "split_acc cur [] = (if cur = [] then [] else [rev cur])"
| "split_acc cur (c # cs) =
     (if py_isspace c then (if cur = [] then split_acc [] cs else rev cur # split_acc [] cs)
      else split_acc (c # cur) cs)"

definition py_split :: "string \<Rightarrow> string list" where
  \<comment> \<open>\<^verbatim>\<open>s.split()\<close>: the maximal runs of characters that are not white space\<close>
  "py_split s = split_acc [] s"

definition py_lower :: "string \<Rightarrow> string" where
  \<comment> \<open>\<^verbatim>\<open>s.lower()\<close> on ASCII\<close>
  "py_lower s =
     map (\<lambda>c. let n = (of_char c :: nat) in if 65 \<le> n \<and> n \<le> 90 then char_of (n + 32) else c) s"

section \<open>Model validation (commons/schema/base.py)\<close>

text \<open>
  Every schema class derives from \<^verbatim>\<open>BaseSchema\<close>, whose configuration sets
  \<^verbatim>\<open>str_strip_whitespace\<close>: constructing a model strips the white space around each
  of its string fields. White space is the ASCII white space here (a \<open>char\<close> is a
  byte). The numeric bounds some fields declare (a score in 1..5, a ratio in 0..1) hold
  for every value taken from a model that was validated before; the modelled code
  builds its models from such values and from literals only, so those checks are not
  repeated. Dumping a model with \<^verbatim>\<open>model_dump()\<close> and building it again from the
  dumped fields gives the same model, so a dumped model is held as the model itself.
\<close>

definition is_space :: "char \<Rightarrow> bool" where
  "is_space c = (let n = (of_char c :: nat) in (9 \<le> n \<and> n \<le> 13) \<or> n = 32)"

definition strip :: "string \<Rightarrow> string" where
  "strip s = rev (dropWhile is_space (rev (dropWhile is_space s)))"

definition Mission_validate :: "Mission \<Rightarrow> Mission" where
  "Mission_validate m =
     m\<lparr>m_id := strip (m_id m), m_user_id := strip (m_user_id m),
       m_title := strip (m_title m), m_description := map_option strip (m_description m),
       m_tags := map strip (m_tags m)\<rparr>"

definition Block_validate :: "Block \<Rightarrow> Block" where
  "Block_validate b =
     b\<lparr>b_id := strip (b_id b), b_user_id := strip (b_user_id b),
       b_mission_id := strip (b_mission_id b), b_title := map_option strip (b_title b),
       b_plan_note := map_option strip (b_plan_note b),
       b_outcome_note := map_option strip (b_outcome_note b),
       b_location_hint := map_option strip (b_location_hint b),
       b_device_hint := map_option strip (b_device_hint b)\<rparr>"

definition Episode_validate :: "Episode \<Rightarrow> Episode" where
  "Episode_validate e =
     e\<lparr>e_id := strip (e_id e), e_user_id := strip (e_user_id e),
       e_mission_id := map_option strip (e_mission_id e),
       e_block_id := map_option strip (e_block_id e),
       e_title := map_option strip (e_title e), e_summary := strip (e_summary e),
       e_reflection := map_option strip (e_reflection e), e_tags := map strip (e_tags e)\<rparr>"

definition UserProfile_validate :: "UserProfile \<Rightarrow> UserProfile" where
  "UserProfile_validate p =
     p\<lparr>p_user_id := strip (p_user_id p),
       p_display_name := map_option strip (p_display_name p),
       p_persona_notes := map_option strip (p_persona_notes p)\<rparr>"

definition ProposedBlock_validate :: "ProposedBlock \<Rightarrow> ProposedBlock" where
  "ProposedBlock_validate b =
     b\<lparr>pb_title := strip (pb_title b), pb_plan_note := map_option strip (pb_plan_note b)\<rparr>"

definition SessionAction_validate :: "SessionAction \<Rightarrow> SessionAction" where
  "SessionAction_validate a = a\<lparr>sa_description := strip (sa_description a)\<rparr>"

definition PatternInsight_validate :: "PatternInsight \<Rightarrow> PatternInsight" where
  "PatternInsight_validate p =
     p\<lparr>pi_description := strip (pi_description p),
       pi_supporting_data := map_option strip (pi_supporting_data p),
       pi_suggested_action := map_option strip (pi_suggested_action p)\<rparr>"

definition PlanMissionResponse_validate :: "PlanMissionResponse \<Rightarrow> PlanMissionResponse" where
  "PlanMissionResponse_validate r =
     r\<lparr>pr_summary := strip (pr_summary r), pr_rationale := map_option strip (pr_rationale r),
       pr_similar_missions_note := map_option strip (pr_similar_missions_note r),
       pr_warnings := map strip (pr_warnings r),
       pr_suggestions := map strip (pr_suggestions r)\<rparr>"

definition RunSessionResponse_validate :: "RunSessionResponse \<Rightarrow> RunSessionResponse" where
  "RunSessionResponse_validate r =
     r\<lparr>rr_brief := strip (rr_brief r), rr_warnings := map strip (rr_warnings r)\<rparr>"

definition ReflectPeriodResponse_validate ::
  "ReflectPeriodResponse \<Rightarrow> ReflectPeriodResponse" where
  "ReflectPeriodResponse_validate r =
     r\<lparr>rf_summary := strip (rf_summary r), rf_highlights := map strip (rf_highlights r),
       rf_challenges := map strip (rf_challenges r),
       rf_suggestions := map strip (rf_suggestions r)\<rparr>"

section \<open>Repositories (memory/in\_memory.py) and the environment\<close>

text \<open>
  The repository bundle with the in-memory repositories, each a Python dict from an id
  to a model. The record also holds what the code reads from its environment:
  \<^verbatim>\<open>date.today()\<close>, \<^verbatim>\<open>now_utc()\<close>, \<^verbatim>\<open>datetime.now()\<close> (one reading each for a
  graph run) and the ids that successive calls of \<^verbatim>\<open>new_id()\<close> return.
\<close>

record SemanticMemory =
  sem_episodes :: "(string \<times> Episode) list"
  sem_missions :: "(string \<times> Mission) list"
  sem_patterns :: "(string \<times> (string \<times> string) list) list"

record sys =
  missions :: "(string \<times> Mission) list"
  blocks :: "(string \<times> Block) list"
  episodes :: "(string \<times> Episode) list"
  profiles :: "(string \<times> UserProfile) list"
  semantic_memory :: "SemanticMemory option"
  today :: date
  now_utc :: datetime
  now_local :: datetime
  new_ids :: "nat \<Rightarrow> string"
  id_calls :: nat

definition new_id :: "sys \<Rightarrow> string \<times> sys" where
  "new_id s = (new_ids s (id_calls s), s\<lparr>id_calls := Suc (id_calls s)\<rparr>)"

definition datetime_min :: datetime where
  "datetime_min = 0"

definition datetime_max :: datetime where
  "datetime_max = date_max_ordinal * micros_per_day - 1"

definition py_max_key :: "('a \<Rightarrow> 'k::linorder) \<Rightarrow> 'a list \<Rightarrow> 'a option" where
  \<comment> \<open>\<^verbatim>\<open>max(xs, key=f)\<close> on a non-empty list: the first element with the largest key\<close>
  "py_max_key f xs =
     (case xs of
        [] \<Rightarrow> None
      | x # r \<Rightarrow> Some (foldl (\<lambda>best y. if f best < f y then y else best) x r))"

subsection \<open>InMemoryMissionsRepository\<close>

definition missions_repo_create :: "Mission \<Rightarrow> sys \<Rightarrow> sys" where
  "missions_repo_create m s = s\<lparr>missions := AList.update (m_id m) m (missions s)\<rparr>"

definition missions_repo_get :: "sys \<Rightarrow> string \<Rightarrow> Mission option" where
  "missions_repo_get s mission_id = map_of (missions s) mission_id"

definition missions_repo_get_active_mission :: "sys \<Rightarrow> string \<Rightarrow> Mission option" where
  "missions_repo_get_active_mission s user_id =
     py_max_key m_updated_at
       (filter (\<lambda>m. m_user_id m = user_id \<and> m_status m = MS_ACTIVE) (map snd (missions s)))"

subsection \<open>InMemoryBlocksRepository\<close>

definition blocks_repo_create :: "Block \<Rightarrow> sys \<Rightarrow> sys" where
  "blocks_repo_create b s = s\<lparr>blocks := AList.update (b_id b) b (blocks s)\<rparr>"

definition blocks_repo_get :: "sys \<Rightarrow> string \<Rightarrow> Block option" where
  "blocks_repo_get s block_id = map_of (blocks s) block_id"

definition blocks_repo_update :: "Block \<Rightarrow> sys \<Rightarrow> error + sys" where
  "blocks_repo_update b s =
     (if map_of (blocks s) (b_id b) = None
      then Inl (ValueError (''Block '' @ b_id b @ '' not found''))
      else Inr (s\<lparr>blocks := AList.update (b_id b) b (blocks s)\<rparr>))"

definition sequence_key :: "Block \<Rightarrow> int" where
  \<comment> \<open>\<^verbatim>\<open>b.sequence_index or 0\<close>\<close>
  "sequence_key b = (case b_sequence_index b of None \<Rightarrow> 0 | Some i \<Rightarrow> i)"

definition scheduled_key :: "Block \<Rightarrow> timestamp" where
  \<comment> \<open>\<^verbatim>\<open>b.scheduled_start or datetime.max\<close>; \<^verbatim>\<open>datetime.max\<close> is naive\<close>
  "scheduled_key b = (case b_scheduled_start b of None \<Rightarrow> Naive datetime_max | Some t \<Rightarrow> t)"

definition started_key :: "Block \<Rightarrow> timestamp" where
  \<comment> \<open>\<^verbatim>\<open>b.actual_start or datetime.min\<close>; \<^verbatim>\<open>datetime.min\<close> is naive\<close>
  "started_key b = (case b_actual_start b of None \<Rightarrow> Naive datetime_min | Some t \<Rightarrow> t)"

definition blocks_repo_list_for_mission ::
  "sys \<Rightarrow> string \<Rightarrow> BlockStatus option \<Rightarrow> nat \<Rightarrow> error + Block list" where
  \<comment> \<open>the last argument is \<^verbatim>\<open>limit\<close>, 100 when the caller leaves it out. The sort key
      is the tuple \<^verbatim>\<open>(b.sequence_index or 0, b.scheduled_start or datetime.max)\<close>: two
      tuples with different first components are ordered by these, two with equal
      first components by the timestamps, which raises when one is naive and the other
      aware.\<close>
  "blocks_repo_list_for_mission s mission_id status limit =
     (let blks =
            filter (\<lambda>b. b_mission_id b = mission_id \<and> (status = None \<or> Some (b_status b) = status))
              (map snd (blocks s))
      in if list_ex
              (\<lambda>a. list_ex
                     (\<lambda>b. sequence_key a = sequence_key b \<and>
                           is_aware (scheduled_key a) \<noteq> is_aware (scheduled_key b))
                     blks)
              blks
         then Inl naive_aware_error
         else Inr (take limit
                     (sort_key (\<lambda>b. (sequence_key b, utc_instant (scheduled_key b))) blks)))"

definition blocks_repo_list_for_user_date :: "sys \<Rightarrow> string \<Rightarrow> date \<Rightarrow> error + Block list" where
  "blocks_repo_list_for_user_date s user_id target_date =
     sort_by_timestamp scheduled_key
       (filter
          (\<lambda>b. b_user_id b = user_id \<and>
                (case b_scheduled_start b of
                   None \<Rightarrow> False
                 | Some t \<Rightarrow> timestamp_date t = target_date))
          (map snd (blocks s)))"

definition blocks_repo_get_current_block :: "sys \<Rightarrow> string \<Rightarrow> error + Block option" where
  "blocks_repo_get_current_block s user_id =
     (case filter (\<lambda>b. b_user_id b = user_id \<and> b_status b = IN_PROGRESS) (map snd (blocks s)) of
        [] \<Rightarrow> Inr None
      | first # others \<Rightarrow> map_sum id Some (max_by_timestamp started_key first others))"

subsection \<open>InMemoryEpisodesRepository\<close>

definition episodes_repo_create :: "Episode \<Rightarrow> sys \<Rightarrow> sys" where
  "episodes_repo_create e s = s\<lparr>episodes := AList.update (e_id e) e (episodes s)\<rparr>"

definition episodes_repo_list_for_user ::
  "sys \<Rightarrow> string \<Rightarrow> EpisodeKind option \<Rightarrow> string option \<Rightarrow> date option \<Rightarrow> date option \<Rightarrow>
   nat \<Rightarrow> Episode list" where
  \<comment> \<open>the last argument is \<^verbatim>\<open>limit\<close>, 50 when the caller leaves it out; the sort is
      Python's stable sort with \<^verbatim>\<open>reverse=True\<close>: latest first, equal keys in their
      original order\<close>
  "episodes_repo_list_for_user s user_id kind mission_id start_date end_date limit =
     (let es0 = filter (\<lambda>e. e_user_id e = user_id) (map snd (episodes s));
          es1 = (case kind of None \<Rightarrow> es0 | Some k \<Rightarrow> filter (\<lambda>e. e_kind e = k) es0);
          es2 = (case mission_id of
                   None \<Rightarrow> es1
                 | Some m \<Rightarrow> filter (\<lambda>e. e_mission_id e = Some m) es1);
          es3 = (case start_date of
                   None \<Rightarrow> es2
                 | Some d \<Rightarrow> filter (\<lambda>e. d \<le> datetime_date (e_created_at e)) es2);
          es4 = (case end_date of
                   None \<Rightarrow> es3
                 | Some d \<Rightarrow> filter (\<lambda>e. datetime_date (e_created_at e) \<le> d) es3)
      in take limit (sort_key (\<lambda>e. - e_created_at e) es4))"

subsection \<open>InMemoryUserProfileRepository\<close>

definition profiles_repo_update :: "UserProfile \<Rightarrow> sys \<Rightarrow> sys" where
  "profiles_repo_update p s = s\<lparr>profiles := AList.update (p_user_id p) p (profiles s)\<rparr>"

definition profiles_repo_get_or_create :: "string \<Rightarrow> sys \<Rightarrow> UserProfile \<times> sys" where
  "profiles_repo_get_or_create user_id s =
     (case map_of (profiles s) user_id of
        Some p \<Rightarrow> (p, s)
      | None \<Rightarrow>
          (let profile = UserProfile_validate
                 \<lparr>p_user_id = user_id, p_created_at = now_local s, p_updated_at = now_local s,
                  p_display_name = None, p_preferences = UserPreferences_default,
                  p_stats = UserStats_default, p_persona_notes = None\<rparr>
           in (profile, s\<lparr>profiles := AList.update user_id profile (profiles s)\<rparr>)))"

subsection \<open>InMemorySemanticMemory\<close>

definition semantic_add_mission :: "Mission \<Rightarrow> sys \<Rightarrow> sys" where
  \<comment> \<open>\<^verbatim>\<open>if self._semantic: await self._semantic.add_mission(mission)\<close>\<close>
  "semantic_add_mission m s =
     (case semantic_memory s of
        None \<Rightarrow> s
      | Some sm \<Rightarrow>
          s\<lparr>semantic_memory :=
               Some (sm\<lparr>sem_missions := AList.update (m_id m) m (sem_missions sm)\<rparr>)\<rparr>)"

definition semantic_add_episode :: "Episode \<Rightarrow> sys \<Rightarrow> sys" where
  \<comment> \<open>\<^verbatim>\<open>if self._semantic: await self._semantic.add_episode(episode)\<close>\<close>
  "semantic_add_episode e s =
     (case semantic_memory s of
        None \<Rightarrow> s
      | Some sm \<Rightarrow>
          s\<lparr>semantic_memory :=
               Some (sm\<lparr>sem_episodes := AList.update (e_id e) e (sem_episodes sm)\<rparr>)\<rparr>)"

definition word_overlap :: "string \<Rightarrow> string \<Rightarrow> nat" where
  \<comment> \<open>\<^verbatim>\<open>len(set(query_lower.split()) & set(text.split()))\<close>\<close>
  "word_overlap query_lower text =
     length (remdups (filter (\<lambda>w. w \<in> set (py_split text)) (py_split query_lower)))"

definition search_similar_missions ::
  "SemanticMemory \<Rightarrow> string \<Rightarrow> string \<Rightarrow> nat \<Rightarrow> Mission list" where
  "search_similar_missions sm user_id query limit =
     (let query_lower = py_lower query;
          user_missions = filter (\<lambda>m. m_user_id m = user_id) (map snd (sem_missions sm));
          scored =
            filter (\<lambda>(overlap, m). 0 < overlap)
              (map (\<lambda>m. (word_overlap query_lower
                            (py_lower
                               (m_title m @ '' '' @
                                (case m_description m of None \<Rightarrow> [] | Some d \<Rightarrow> d))),
                          m))
                 user_missions)
      in map snd (take limit (sort_key (\<lambda>(overlap, m). - int overlap) scored)))"

section \<open>Tools\<close>

subsection \<open>MissionTools (tools/mission.py)\<close>

definition create_mission ::
  "sys \<Rightarrow> string \<Rightarrow> string \<Rightarrow> string option \<Rightarrow> MissionKind \<Rightarrow> MissionPriority \<Rightarrow>
   datetime option \<Rightarrow> datetime option \<Rightarrow> int option \<Rightarrow> MissionConstraints option \<Rightarrow>
   MissionPreferences option \<Rightarrow> string list option \<Rightarrow> Mission \<times> sys" where
  "create_mission s user_id title description kind priority deadline_date planned_start_date
     estimated_total_minutes constraints preferences tags =
     (let now = now_utc s;
          (i, s1) = new_id s;
          mission = Mission_validate
            \<lparr>m_id = i, m_user_id = user_id, m_title = title, m_description = description,
             m_kind = kind, m_status = MS_ACTIVE, m_priority = priority,
             m_created_at = now, m_updated_at = now,
             m_planned_start_date = map_option datetime_date planned_start_date,
             m_deadline_date = map_option datetime_date deadline_date,
             m_estimated_total_minutes = estimated_total_minutes,
             m_tags = (case tags of None \<Rightarrow> [] | Some t \<Rightarrow> t),
             m_graph_links = [],
             m_constraints =
               (case constraints of None \<Rightarrow> MissionConstraints_default | Some c \<Rightarrow> c),
             m_preferences =
               (case preferences of None \<Rightarrow> MissionPreferences_default | Some p \<Rightarrow> p),
             m_archived = False\<rparr>
      in (mission, semantic_add_mission mission (missions_repo_create mission s1)))"

definition get_mission :: "sys \<Rightarrow> string \<Rightarrow> Mission option" where
  "get_mission s mission_id = missions_repo_get s mission_id"

definition get_active_mission :: "sys \<Rightarrow> string \<Rightarrow> Mission option" where
  "get_active_mission s user_id = missions_repo_get_active_mission s user_id"

definition find_similar_missions :: "sys \<Rightarrow> string \<Rightarrow> string \<Rightarrow> nat \<Rightarrow> Mission list" where
  "find_similar_missions s user_id query limit =
     (case semantic_memory s of
        None \<Rightarrow> []
      | Some sm \<Rightarrow> search_similar_missions sm user_id query limit)"

subsection \<open>TimelineTools (tools/timeline.py)\<close>

fun for_loop :: "('i \<Rightarrow> 'a \<Rightarrow> error + 'a) \<Rightarrow> 'i list \<Rightarrow> 'a \<Rightarrow> error + 'a" where
  \<comment> \<open>\<^verbatim>\<open>for i in xs: body\<close>, where the body updates the loop's variables and may raise\<close>
  "for_loop body [] acc = Inr acc"
| "for_loop body (i # rest) acc =
     (case body i acc of Inl e \<Rightarrow> Inl e | Inr acc' \<Rightarrow> for_loop body rest acc')"

definition propose_step ::
  "Mission \<Rightarrow> string \<Rightarrow> date \<Rightarrow> int \<Rightarrow> nat \<Rightarrow> Block list \<times> sys \<Rightarrow> error + Block list \<times> sys" where
  \<comment> \<open>the body of the loop \<^verbatim>\<open>for i in range(num_blocks)\<close> of
      \<^verbatim>\<open>propose_blocks_for_mission\<close>, on the list \<^verbatim>\<open>blocks\<close> built so far\<close>
  "propose_step mission mission_id start duration i acc =
     (case date_add_days start (int i) of
        Inl e \<Rightarrow> Inl e
      | Inr block_date \<Rightarrow>
          if days_off (m_constraints mission) \<noteq> [] \<and>
             date_weekday block_date \<in> set (days_off (m_constraints mission))
          then Inr acc
          else
            (let blks = fst acc;
                 (i', s1) = new_id (snd acc);
                 block = Block_validate
                   \<lparr>b_id = i', b_user_id = m_user_id mission, b_mission_id = mission_id,
                    b_sequence_index = Some (int (length blks)),
                    b_scheduled_start = Some (Naive (datetime_combine_hour block_date 9)),
                    b_scheduled_end = None,
                    b_planned_duration_minutes = Some duration,
                    b_actual_start = None, b_actual_end = None, b_status = PLANNED,
                    b_title =
                      Some (m_title mission @ '' - Session '' @ str_nat (length blks + 1)),
                    b_plan_note = None, b_outcome_note = None, b_completion_ratio = None,
                    b_location_hint = None, b_device_hint = None\<rparr>
             in Inr (blks @ [block], s1)))"

definition propose_blocks_for_mission ::
  "sys \<Rightarrow> string \<Rightarrow> date option \<Rightarrow> int \<Rightarrow> int \<Rightarrow> error + Block list \<times> sys" where
  \<comment> \<open>the arguments after the mission id are \<^verbatim>\<open>start_date\<close> (None when left out),
      \<^verbatim>\<open>num_blocks\<close> (5 when left out) and \<^verbatim>\<open>default_duration_minutes\<close> (25 when
      left out)\<close>
  "propose_blocks_for_mission s mission_id start_date num_blocks default_duration_minutes =
     (case missions_repo_get s mission_id of
        None \<Rightarrow> Inr ([], s)
      | Some mission \<Rightarrow>
          (let start = (case start_date of None \<Rightarrow> today s | Some d \<Rightarrow> d);
               duration =
                 (case preferred_block_lengths (m_preferences mission) of
                    None \<Rightarrow> default_duration_minutes
                  | Some [] \<Rightarrow> default_duration_minutes
                  | Some (l # _) \<Rightarrow> l)
           in for_loop (propose_step mission mission_id start duration) [0..<nat num_blocks]
                ([], s)))"

definition create_block ::
  "sys \<Rightarrow> string \<Rightarrow> string \<Rightarrow> string option \<Rightarrow> string option \<Rightarrow> timestamp option \<Rightarrow> int \<Rightarrow>
   error + Block \<times> sys" where
  "create_block s user_id mission_id title plan_note scheduled_start planned_duration_minutes =
     (case blocks_repo_list_for_mission s mission_id None 100 of
        Inl e \<Rightarrow> Inl e
      | Inr existing_blocks \<Rightarrow>
          (let sequence_index = int (length existing_blocks);
               (i, s1) = new_id s;
               block = Block_validate
                 \<lparr>b_id = i, b_user_id = user_id, b_mission_id = mission_id,
                  b_sequence_index = Some sequence_index, b_scheduled_start = scheduled_start,
                  b_scheduled_end = None,
                  b_planned_duration_minutes = Some planned_duration_minutes,
                  b_actual_start = None, b_actual_end = None, b_status = PLANNED,
                  b_title = title, b_plan_note = plan_note, b_outcome_note = None,
                  b_completion_ratio = None, b_location_hint = None, b_device_hint = None\<rparr>
           in Inr (block, blocks_repo_create block s1)))"

definition start_block :: "sys \<Rightarrow> string \<Rightarrow> error + Block option \<times> sys" where
  "start_block s block_id =
     (case blocks_repo_get s block_id of
        None \<Rightarrow> Inr (None, s)
      | Some block \<Rightarrow>
          (let updated =
                 block\<lparr>b_status := IN_PROGRESS, b_actual_start := Some (Aware (now_utc s) 0)\<rparr>
           in case blocks_repo_update updated s of
                Inl e \<Rightarrow> Inl e
              | Inr s' \<Rightarrow> Inr (Some updated, s')))"

definition get_block :: "sys \<Rightarrow> string \<Rightarrow> Block option" where
  "get_block s block_id = blocks_repo_get s block_id"

definition get_today_blocks :: "sys \<Rightarrow> string \<Rightarrow> error + Block list" where
  "get_today_blocks s user_id = blocks_repo_list_for_user_date s user_id (today s)"

definition get_current_block :: "sys \<Rightarrow> string \<Rightarrow> error + Block option" where
  "get_current_block s user_id = blocks_repo_get_current_block s user_id"

definition truthy_str :: "string option \<Rightarrow> string option" where
  \<comment> \<open>an optional string under \<^verbatim>\<open>if x:\<close>: \<^verbatim>\<open>None\<close> and the empty string are false\<close>
  "truthy_str x = (case x of None \<Rightarrow> None | Some v \<Rightarrow> if v = [] then None else Some v)"

definition get_next_planned_block ::
  "sys \<Rightarrow> string \<Rightarrow> string option \<Rightarrow> error + Block option" where
  "get_next_planned_block s user_id mission_id =
     (case (case truthy_str mission_id of
              Some m \<Rightarrow> blocks_repo_list_for_mission s m (Some PLANNED) 100
            | None \<Rightarrow>
                map_sum id (filter (\<lambda>b. b_status b = PLANNED)) (get_today_blocks s user_id)) of
        Inl e \<Rightarrow> Inl e
      | Inr blks \<Rightarrow>
          (case blks of
             [] \<Rightarrow> Inr None
           | first # _ \<Rightarrow>
               (case filter (\<lambda>b. b_scheduled_start b \<noteq> None) blks of
                  [] \<Rightarrow> Inr (Some first)
                | earliest # others \<Rightarrow>
                    map_sum id Some (min_by_timestamp scheduled_key earliest others))))"

subsection \<open>MemoryTools (tools/memory.py)\<close>

definition save_episode ::
  "sys \<Rightarrow> string \<Rightarrow> EpisodeKind \<Rightarrow> string \<Rightarrow> string option \<Rightarrow> string option \<Rightarrow>
   string option \<Rightarrow> int option \<Rightarrow> int option \<Rightarrow> int option \<Rightarrow> int option \<Rightarrow> string list option \<Rightarrow>
   Episode \<times> sys" where
  \<comment> \<open>the keyword arguments that no caller in the graphs passes (\<^verbatim>\<open>title\<close>,
      \<^verbatim>\<open>mood_before\<close>, \<^verbatim>\<open>mood_after\<close>, \<^verbatim>\<open>leaks\<close>) are at their default
      \<^verbatim>\<open>None\<close>\<close>
  "save_episode s user_id kind summary mission_id block_id reflection focus_score energy_score
     time_focused_minutes time_leaked_minutes tags =
     (let (i, s1) = new_id s;
          episode = Episode_validate
            \<lparr>e_id = i, e_user_id = user_id, e_kind = kind, e_created_at = now_utc s1,
             e_mission_id = mission_id, e_block_id = block_id, e_title = None,
             e_summary = summary, e_reflection = reflection, e_mood_before = None,
             e_mood_after = None, e_focus_score = focus_score, e_energy_score = energy_score,
             e_time_focused_minutes = time_focused_minutes,
             e_time_leaked_minutes = time_leaked_minutes, e_leaks = [],
             e_tags = (case tags of None \<Rightarrow> [] | Some t \<Rightarrow> t), e_meta = []\<rparr>
      in (episode, semantic_add_episode episode (episodes_repo_create episode s1)))"

definition get_episodes_for_period ::
  "sys \<Rightarrow> string \<Rightarrow> date \<Rightarrow> date \<Rightarrow> EpisodeKind option \<Rightarrow> Episode list" where
  \<comment> \<open>the tool passes no \<^verbatim>\<open>limit\<close>, so the repository applies its default of 50\<close>
  "get_episodes_for_period s user_id start_date end_date kind =
     episodes_repo_list_for_user s user_id kind None (Some start_date) (Some end_date) 50"

definition get_user_profile :: "sys \<Rightarrow> string \<Rightarrow> UserProfile \<times> sys" where
  "get_user_profile s user_id = profiles_repo_get_or_create user_id s"

definition update_user_stats :: "sys \<Rightarrow> string \<Rightarrow> int \<Rightarrow> int \<Rightarrow> int \<Rightarrow> UserProfile \<times> sys" where
  \<comment> \<open>the deltas are \<^verbatim>\<open>blocks_completed_delta\<close>, \<^verbatim>\<open>focused_minutes_delta\<close> and
      \<^verbatim>\<open>missions_created_delta\<close>\<close>
  "update_user_stats s user_id blocks_completed_delta focused_minutes_delta
     missions_created_delta =
     (let (profile, s1) = profiles_repo_get_or_create user_id s;
          new_stats =
            \<lparr>total_missions_created =
               total_missions_created (p_stats profile) + missions_created_delta,
             total_blocks_completed =
               total_blocks_completed (p_stats profile) + blocks_completed_delta,
             total_focused_minutes =
               total_focused_minutes (p_stats profile) + focused_minutes_delta,
             avg_block_length_successful = avg_block_length_successful (p_stats profile),
             avg_start_hour_successful = avg_start_hour_successful (p_stats profile),
             night_sessions_failure_rate = night_sessions_failure_rate (p_stats profile),
             morning_sessions_success_rate = morning_sessions_success_rate (p_stats profile)\<rparr>;
          updated = profile\<lparr>p_stats := new_stats, p_updated_at := now_utc s1\<rparr>
      in (updated, profiles_repo_update updated s1))"

text \<open>
  The statistics dict of \<^verbatim>\<open>compute_period_stats\<close>, with the key
  \<^verbatim>\<open>completion_rate\<close> that the archivist may add (\<open>None\<close>: the key is absent).
  Python's floats are exact rationals here; a comparison of a quotient of integers with
  an integer gives the same answer in both.
\<close>

record PeriodStats =
  st_total_focused_minutes :: int
  st_total_leaked_minutes :: int
  st_blocks_completed :: int
  st_avg_focus_score :: rat
  st_avg_energy_score :: rat
  st_completion_rate :: "rat option"

definition add_if_truthy :: "int \<Rightarrow> int option \<Rightarrow> int" where
  \<comment> \<open>\<^verbatim>\<open>if x: total += x\<close>\<close>
  "add_if_truthy acc x =
     (case x of None \<Rightarrow> acc | Some n \<Rightarrow> if n \<noteq> 0 then acc + n else acc)"

definition append_if_truthy :: "int list \<Rightarrow> int option \<Rightarrow> int list" where
  \<comment> \<open>\<^verbatim>\<open>if x: scores.append(x)\<close>\<close>
  "append_if_truthy scores x =
     (case x of None \<Rightarrow> scores | Some n \<Rightarrow> if n \<noteq> 0 then scores @ [n] else scores)"

fun stats_loop ::
  "Episode list \<Rightarrow> int \<Rightarrow> int \<Rightarrow> int \<Rightarrow> int list \<Rightarrow> int list \<Rightarrow>
   int \<times> int \<times> int \<times> int list \<times> int list" where
  \<comment> \<open>the loop \<^verbatim>\<open>for ep in episodes\<close> of \<^verbatim>\<open>compute_period_stats\<close>\<close>
  "stats_loop [] total_focused total_leaked blocks_completed focus_scores energy_scores =
     (total_focused, total_leaked, blocks_completed, focus_scores, energy_scores)"
| "stats_loop (ep # eps) total_focused total_leaked blocks_completed focus_scores
     energy_scores =
     stats_loop eps
       (add_if_truthy total_focused (e_time_focused_minutes ep))
       (add_if_truthy total_leaked (e_time_leaked_minutes ep))
       (if e_kind ep = EK_SESSION then blocks_completed + 1 else blocks_completed)
       (append_if_truthy focus_scores (e_focus_score ep))
       (append_if_truthy energy_scores (e_energy_score ep))"

definition average :: "int list \<Rightarrow> rat" where
  \<comment> \<open>\<^verbatim>\<open>sum(xs) / len(xs) if xs else 0.0\<close>\<close>
  "average xs = (if xs = [] then 0 else of_int (sum_list xs) / of_nat (length xs))"

definition compute_period_stats :: "sys \<Rightarrow> string \<Rightarrow> date \<Rightarrow> date \<Rightarrow> PeriodStats" where
  "compute_period_stats s user_id start_date end_date =
     (case stats_loop (get_episodes_for_period s user_id start_date end_date None) 0 0 0 [] [] of
        (total_focused, total_leaked, blocks_completed, focus_scores, energy_scores) \<Rightarrow>
          \<lparr>st_total_focused_minutes = total_focused,
           st_total_leaked_minutes = total_leaked,
           st_blocks_completed = blocks_completed,
           st_avg_focus_score = average focus_scores,
           st_avg_energy_score = average energy_scores,
           st_completion_rate = None\<rparr>)"

section \<open>Archivist graph (graphs/archivist\_graph.py)\<close>

fun ReflectPeriodKind_value :: "ReflectPeriodKind \<Rightarrow> string" where
  "ReflectPeriodKind_value RK_BLOCK = ''block''"
| "ReflectPeriodKind_value RK_DAY = ''day''"
| "ReflectPeriodKind_value RK_WEEK = ''week''"
| "ReflectPeriodKind_value RK_MISSION = ''mission''"

definition EpisodeKind_of :: "string \<Rightarrow> error + EpisodeKind" where
  \<comment> \<open>\<^verbatim>\<open>EpisodeKind(v)\<close>: the member whose value is \<open>v\<close>, or \<^verbatim>\<open>ValueError\<close>\<close>
  "EpisodeKind_of v =
     (if v = ''session'' then Inr EK_SESSION
      else if v = ''day'' then Inr EK_DAY
      else if v = ''mission'' then Inr EK_MISSION
      else if v = ''meta'' then Inr EK_META
      else Inl (ValueError (v @ '' is not a valid EpisodeKind'')))"

text \<open>
  The state dict of one archivist run. \<open>ar_request\<close> is
  \<^verbatim>\<open>outputs["request"]\<close>, whose entries \<^verbatim>\<open>run_archivist\<close> copies from the request
  (a date goes through \<^verbatim>\<open>isoformat\<close> and \<^verbatim>\<open>date.fromisoformat\<close>, which gives the
  date back). Each other field is a key of \<^verbatim>\<open>outputs\<close> that a node writes; \<open>None\<close>
  is the absent key or the value \<^verbatim>\<open>None\<close>, which the readers do not tell apart.
\<close>

record Period =
  period_kind :: string
  period_start_date :: date
  period_end_date :: date

record ArchivistState =
  ar_user_id :: string
  ar_request :: ReflectPeriodRequest
  ar_period :: "Period option"
  ar_block :: "Block option"
  ar_mission :: "Mission option"
  ar_period_episodes :: "Episode list option"
  ar_profile :: "UserProfile option"
  ar_stats :: "PeriodStats option"
  ar_patterns :: "PatternInsight list option"
  ar_highlights :: "string list option"
  ar_challenges :: "string list option"
  ar_episode :: "Episode option"
  ar_updated_profile :: "UserProfile option"
  ar_final_summary :: "string option"
  ar_suggestions :: "string list option"
  ar_errors :: "string list"

definition load_period_data :: "ArchivistState \<times> sys \<Rightarrow> error + ArchivistState \<times> sys" where
  \<comment> \<open>\<^verbatim>\<open>ArchivistGraph._load_period_data\<close>\<close>
  "load_period_data st =
     (let state = fst st; s = snd st;
          user_id = ar_user_id state;
          request_data = ar_request state;
          kind = rp_kind request_data;
          end_date0 = today s
      in case (if kind = RK_BLOCK then Inr end_date0
               else if kind = RK_DAY then Inr end_date0
               else if kind = RK_WEEK then date_add_days end_date0 (- 7)
               else date_add_days end_date0 (- 30)) of
           Inl e \<Rightarrow> Inl e
         | Inr start_date0 \<Rightarrow>
             (let start_date =
                    (case rp_start_date request_data of None \<Rightarrow> start_date0 | Some d \<Rightarrow> d);
                  end_date =
                    (case rp_end_date request_data of None \<Rightarrow> end_date0 | Some d \<Rightarrow> d);
                  block_data =
                    (case truthy_str (rp_block_id request_data) of
                       None \<Rightarrow> None
                     | Some b \<Rightarrow> get_block s b);
                  mission_data =
                    (case truthy_str (rp_mission_id request_data) of
                       None \<Rightarrow> None
                     | Some m \<Rightarrow> get_mission s m);
                  eps = get_episodes_for_period s user_id start_date end_date None;
                  (profile, s1) = get_user_profile s user_id
              in Inr (state\<lparr>ar_period :=
                               Some \<lparr>period_kind = ReflectPeriodKind_value kind,
                                     period_start_date = start_date,
                                     period_end_date = end_date\<rparr>,
                             ar_block := block_data, ar_mission := mission_data,
                             ar_period_episodes := Some eps,
                             ar_profile := Some profile\<rparr>, s1)))"

definition compute_stats :: "ArchivistState \<times> sys \<Rightarrow> error + ArchivistState \<times> sys" where
  \<comment> \<open>\<^verbatim>\<open>ArchivistGraph._compute_stats\<close>; \<^verbatim>\<open>period["start_date"]\<close> raises
      \<^verbatim>\<open>KeyError\<close> when the period was not written\<close>
  "compute_stats st =
     (let state = fst st; s = snd st in
      case ar_period state of
        None \<Rightarrow> Inl (KeyError ''start_date'')
      | Some period \<Rightarrow>
          (let stats = compute_period_stats s (ar_user_id state) (period_start_date period)
                         (period_end_date period);
               stats' =
                 (if 0 < st_blocks_completed stats
                  then stats\<lparr>st_completion_rate :=
                               Some (min 1 (of_int (st_blocks_completed stats) / 5))\<rparr>
                  else stats)
           in Inr (state\<lparr>ar_stats := Some stats'\<rparr>, s)))"

definition identify_patterns ::
  "(rat \<Rightarrow> string) \<Rightarrow> ArchivistState \<times> sys \<Rightarrow> error + ArchivistState \<times> sys" where
  \<comment> \<open>\<^verbatim>\<open>ArchivistGraph._identify_patterns\<close>; \<open>fmt1\<close> renders a float as the format
      \<^verbatim>\<open>.1f\<close> does\<close>
  "identify_patterns fmt1 st =
     (let state = fst st; s = snd st;
          focused = (case ar_stats state of None \<Rightarrow> 0 | Some x \<Rightarrow> st_total_focused_minutes x);
          leaked = (case ar_stats state of None \<Rightarrow> 0 | Some x \<Rightarrow> st_total_leaked_minutes x);
          blks = (case ar_stats state of None \<Rightarrow> 0 | Some x \<Rightarrow> st_blocks_completed x);
          highlights =
            (if 0 < blks then [''Completed '' @ str_int blks @ '' focus blocks''] else []) @
            (if 60 < focused then [''Total focus time: '' @ str_int focused @ '' minutes'']
             else []);
          challenges =
            (if 30 < leaked then [''Leak time: '' @ str_int leaked @ '' minutes''] else []);
          avg_focus = (case ar_stats state of None \<Rightarrow> 0 | Some x \<Rightarrow> st_avg_focus_score x);
          patterns1 =
            (if 4 \<le> avg_focus then
               [\<lparr>pi_description = ''Your focus has been strong this period'',
                 pi_confidence = 7 / 10,
                 pi_supporting_data =
                   Some (''Average focus score: '' @ fmt1 avg_focus @ ''/5''),
                 pi_suggested_action = None\<rparr>]
             else if 0 < avg_focus \<and> avg_focus < 3 then
               [\<lparr>pi_description = ''Focus has been challenging - consider shorter blocks'',
                 pi_confidence = 6 / 10,
                 pi_supporting_data = None,
                 pi_suggested_action = Some ''Try 25-minute blocks instead of longer ones''\<rparr>]
             else []);
          avg_energy = (case ar_stats state of None \<Rightarrow> 0 | Some x \<Rightarrow> st_avg_energy_score x);
          patterns2 =
            (if 0 < avg_energy \<and> avg_energy < 3 then
               [\<lparr>pi_description = ''Energy levels have been lower than usual'',
                 pi_confidence = 5 / 10,
                 pi_supporting_data = None,
                 pi_suggested_action = Some ''Consider rest or lighter sessions''\<rparr>]
             else [])
      in Inr (state\<lparr>ar_patterns := Some (patterns1 @ patterns2),
                     ar_highlights := Some highlights,
                     ar_challenges := Some challenges\<rparr>, s))"

definition write_episode :: "ArchivistState \<times> sys \<Rightarrow> error + ArchivistState \<times> sys" where
  \<comment> \<open>\<^verbatim>\<open>ArchivistGraph._write_episode\<close>\<close>
  "write_episode st =
     (let state = fst st; s = snd st;
          request_data = ar_request state;
          kind_str = (case ar_period state of None \<Rightarrow> ''session'' | Some p \<Rightarrow> period_kind p)
      in case EpisodeKind_of kind_str of
           Inl e \<Rightarrow> Inl e
         | Inr kind \<Rightarrow>
             (let blks = (case ar_stats state of None \<Rightarrow> 0 | Some x \<Rightarrow> st_blocks_completed x);
                  focused =
                    (case ar_stats state of None \<Rightarrow> 0 | Some x \<Rightarrow> st_total_focused_minutes x);
                  summary_parts =
                    (if 0 < blks then [''Completed '' @ str_int blks @ '' blocks''] else []) @
                    (if 0 < focused then [str_int focused @ '' minutes focused''] else []);
                  summary =
                    (if summary_parts \<noteq> [] then join ''. '' summary_parts
                     else ''Reflection recorded'');
                  (episode, s1) =
                    save_episode s (ar_user_id state) kind summary
                      (rp_mission_id request_data) (rp_block_id request_data)
                      (rp_user_reflection request_data)
                      (rp_focus_score request_data) (rp_energy_score request_data)
                      (map_option st_total_focused_minutes (ar_stats state))
                      (map_option st_total_leaked_minutes (ar_stats state))
                      (Some (kind_str #
                             (if truthy_str (rp_user_reflection request_data) \<noteq> None
                              then [''has_reflection''] else [])))
              in Inr (state\<lparr>ar_episode := Some episode\<rparr>, s1)))"

definition update_profile :: "ArchivistState \<times> sys \<Rightarrow> error + ArchivistState \<times> sys" where
  \<comment> \<open>\<^verbatim>\<open>ArchivistGraph._update_profile\<close>\<close>
  "update_profile st =
     (let state = fst st; s = snd st;
          (updated_profile, s1) =
            update_user_stats s (ar_user_id state)
              (case ar_stats state of None \<Rightarrow> 0 | Some x \<Rightarrow> st_blocks_completed x)
              (case ar_stats state of None \<Rightarrow> 0 | Some x \<Rightarrow> st_total_focused_minutes x)
              0
      in Inr (state\<lparr>ar_updated_profile := Some updated_profile\<rparr>, s1))"

definition build_summary :: "ArchivistState \<times> sys \<Rightarrow> error + ArchivistState \<times> sys" where
  \<comment> \<open>\<^verbatim>\<open>ArchivistGraph._build_summary\<close>\<close>
  "build_summary st =
     (let state = fst st; s = snd st;
          highlights = (case ar_highlights state of None \<Rightarrow> [] | Some h \<Rightarrow> h);
          challenges = (case ar_challenges state of None \<Rightarrow> [] | Some c \<Rightarrow> c);
          patterns = (case ar_patterns state of None \<Rightarrow> [] | Some p \<Rightarrow> p);
          summary_parts =
            (if highlights \<noteq> [] then [''Highlights: '' @ join '', '' highlights] else []) @
            (if challenges \<noteq> [] then [''Challenges: '' @ join '', '' challenges] else []);
          summary =
            (if summary_parts \<noteq> [] then join ''. '' summary_parts
             else ''Reflection complete.'');
          suggestions =
            concat (map (\<lambda>p. case truthy_str (pi_suggested_action p) of
                                None \<Rightarrow> []
                              | Some a \<Rightarrow> [a]) patterns)
      in Inr (state\<lparr>ar_final_summary := Some summary, ar_suggestions := Some suggestions\<rparr>,
              s))"

definition then_node ::
  "error + 'a \<Rightarrow> ('a \<Rightarrow> error + 'a) \<Rightarrow> error + 'a" where
  \<comment> \<open>an edge of the compiled graph: the next node runs on the state the previous one
      returned; an exception leaves \<^verbatim>\<open>ainvoke\<close>\<close>
  "then_node r node = (case r of Inl e \<Rightarrow> Inl e | Inr st \<Rightarrow> node st)"

definition archivist_graph ::
  "(rat \<Rightarrow> string) \<Rightarrow> ArchivistState \<times> sys \<Rightarrow> error + ArchivistState \<times> sys" where
  \<comment> \<open>\<^verbatim>\<open>ArchivistGraph.build().compile().ainvoke\<close>: the six nodes in the order of the
      edges\<close>
  "archivist_graph fmt1 st =
     then_node (then_node (then_node (then_node (then_node
       (load_period_data st) compute_stats) (identify_patterns fmt1)) write_episode)
       update_profile) build_summary"

definition run_archivist ::
  "(rat \<Rightarrow> string) \<Rightarrow> sys \<Rightarrow> string \<Rightarrow> ReflectPeriodRequest \<Rightarrow>
   error + ReflectPeriodResponse \<times> sys" where
  "run_archivist fmt1 s user_id req =
     (let initial_state =
            \<lparr>ar_user_id = user_id, ar_request = req, ar_period = None, ar_block = None,
             ar_mission = None, ar_period_episodes = None, ar_profile = None,
             ar_stats = None, ar_patterns = None, ar_highlights = None,
             ar_challenges = None, ar_episode = None, ar_updated_profile = None,
             ar_final_summary = None, ar_suggestions = None, ar_errors = []\<rparr>
      in case archivist_graph fmt1 (initial_state, s) of
           Inl e \<Rightarrow> Inl e
         | Inr (final_state, s') \<Rightarrow>
             (case (case ar_episode final_state of
                      Some ep \<Rightarrow> Inr ep
                    | None \<Rightarrow>
                        map_sum id
                          (\<lambda>k. Episode_validate
                             \<lparr>e_id = [], e_user_id = user_id, e_kind = k,
                              e_created_at = now_local s', e_mission_id = None,
                              e_block_id = None, e_title = None,
                              e_summary = ''Reflection recorded'', e_reflection = None,
                              e_mood_before = None, e_mood_after = None,
                              e_focus_score = None, e_energy_score = None,
                              e_time_focused_minutes = None, e_time_leaked_minutes = None,
                              e_leaks = [], e_tags = [], e_meta = []\<rparr>)
                          (EpisodeKind_of (ReflectPeriodKind_value (rp_kind req)))) of
                Inl e \<Rightarrow> Inl e
              | Inr episode \<Rightarrow>
                  Inr (ReflectPeriodResponse_validate
                        \<lparr>rf_episode = episode,
                         rf_summary =
                           (case ar_final_summary final_state of None \<Rightarrow> [] | Some x \<Rightarrow> x),
                         rf_highlights =
                           (case ar_highlights final_state of None \<Rightarrow> [] | Some x \<Rightarrow> x),
                         rf_challenges =
                           (case ar_challenges final_state of None \<Rightarrow> [] | Some x \<Rightarrow> x),
                         rf_patterns =
                           map PatternInsight_validate
                             (case ar_patterns final_state of None \<Rightarrow> [] | Some x \<Rightarrow> x),
                         rf_total_focused_minutes =
                           (case ar_stats final_state of
                              None \<Rightarrow> 0 | Some x \<Rightarrow> st_total_focused_minutes x),
                         rf_total_leaked_minutes =
                           (case ar_stats final_state of
                              None \<Rightarrow> 0 | Some x \<Rightarrow> st_total_leaked_minutes x),
                         rf_blocks_completed =
                           (case ar_stats final_state of
                              None \<Rightarrow> 0 | Some x \<Rightarrow> st_blocks_completed x),
                         rf_completion_rate =
                           (case ar_stats final_state of
                              None \<Rightarrow> None | Some x \<Rightarrow> st_completion_rate x),
                         rf_updated_profile = ar_updated_profile final_state,
                         rf_suggestions =
                           (case ar_suggestions final_state of None \<Rightarrow> [] | Some x \<Rightarrow> x)\<rparr>,
                       s')))"

section \<open>Planner graph (graphs/planner\_graph.py)\<close>

record ParsedInput =
  parsed_title :: string
  parsed_description :: "string option"
  parsed_kind :: MissionKind
  parsed_deadline :: "date option"
  parsed_estimated_hours :: "rat option"
  parsed_constraints :: "MissionConstraints option"
  parsed_preferences :: "MissionPreferences option"

text \<open>
  The state dict of one planner run: \<open>pl_request\<close> is \<^verbatim>\<open>outputs["request"]\<close>,
  \<open>pl_mission_id\<close> is \<^verbatim>\<open>context["mission_id"]\<close>, each other field but the last two
  is a key of \<^verbatim>\<open>outputs\<close>.
\<close>

record PlannerState =
  pl_user_id :: string
  pl_mission_id :: "string option"
  pl_request :: PlanMissionRequest
  pl_parsed_input :: "ParsedInput option"
  pl_similar_missions :: "Mission list option"
  pl_history_note :: "string option"
  pl_mission :: "Mission option"
  pl_proposed_blocks :: "ProposedBlock list option"
  pl_summary :: "string option"
  pl_rationale :: "string option"
  pl_similar_missions_note :: "string option"
  pl_scratchpad :: string
  pl_errors :: "string list"

definition parse_input :: "PlannerState \<times> sys \<Rightarrow> error + PlannerState \<times> sys" where
  \<comment> \<open>\<^verbatim>\<open>PlannerGraph._parse_input\<close>\<close>
  "parse_input st =
     (let state = fst st; s = snd st;
          request_data = pl_request state;
          parsed =
            \<lparr>parsed_title = take 100 (pm_raw_input request_data),
             parsed_description = Some (pm_raw_input request_data),
             parsed_kind = (case pm_kind request_data of None \<Rightarrow> MK_OTHER | Some k \<Rightarrow> k),
             parsed_deadline = pm_deadline request_data,
             parsed_estimated_hours = pm_estimated_hours request_data,
             parsed_constraints = pm_constraints request_data,
             parsed_preferences = pm_preferences request_data\<rparr>
      in Inr (state\<lparr>pl_parsed_input := Some parsed,
                     pl_scratchpad :=
                       pl_scratchpad state @ [CHR 0x0A] @ ''Parsed input: '' @
                       parsed_title parsed\<rparr>, s))"

definition check_history :: "PlannerState \<times> sys \<Rightarrow> error + PlannerState \<times> sys" where
  \<comment> \<open>\<^verbatim>\<open>PlannerGraph._check_history\<close>\<close>
  "check_history st =
     (let state = fst st; s = snd st;
          query =
            (case pl_parsed_input state of
               None \<Rightarrow> '' ''
             | Some parsed \<Rightarrow>
                 parsed_title parsed @ '' '' @
                 (case parsed_description parsed of None \<Rightarrow> ''None'' | Some d \<Rightarrow> d));
          similar = find_similar_missions s (pl_user_id state) query 3;
          completed = filter (\<lambda>m. m_status m = MS_COMPLETED) similar;
          history_note =
            (if similar \<noteq> [] \<and> completed \<noteq> []
             then Some (''Found '' @ str_nat (length completed) @
                        '' similar completed missions. Consider what worked before.'')
             else None)
      in Inr (state\<lparr>pl_similar_missions := Some similar, pl_history_note := history_note\<rparr>,
              s))"

definition truncate_int :: "rat \<Rightarrow> int" where
  \<comment> \<open>\<^verbatim>\<open>int(x)\<close> of a float: rounding toward zero\<close>
  "truncate_int x = (if 0 \<le> x then \<lfloor>x\<rfloor> else \<lceil>x\<rceil>)"

definition build_mission :: "PlannerState \<times> sys \<Rightarrow> error + PlannerState \<times> sys" where
  \<comment> \<open>\<^verbatim>\<open>PlannerGraph._build_mission\<close>. The deadline arrives as an ISO date string, and
      \<^verbatim>\<open>datetime.fromisoformat\<close> makes it the midnight of that date. The product
      \<^verbatim>\<open>estimated_hours * 60\<close> is exact here, a binary float in the source.\<close>
  "build_mission st =
     (let state = fst st; s = snd st;
          parsed = pl_parsed_input state;
          deadline_dt =
            (case parsed of
               None \<Rightarrow> None
             | Some p \<Rightarrow> map_option (\<lambda>d. datetime_combine_hour d 0) (parsed_deadline p));
          estimated_minutes =
            (case parsed of
               None \<Rightarrow> None
             | Some p \<Rightarrow>
                 (case parsed_estimated_hours p of
                    None \<Rightarrow> None
                  | Some h \<Rightarrow> if h \<noteq> 0 then Some (truncate_int (h * 60)) else None));
          (mission, s1) =
            create_mission s (pl_user_id state)
              (case parsed of None \<Rightarrow> ''Untitled'' | Some p \<Rightarrow> parsed_title p)
              (case parsed of None \<Rightarrow> None | Some p \<Rightarrow> parsed_description p)
              (case parsed of None \<Rightarrow> MK_OTHER | Some p \<Rightarrow> parsed_kind p)
              MP_MEDIUM deadline_dt None estimated_minutes
              (case parsed of None \<Rightarrow> None | Some p \<Rightarrow> parsed_constraints p)
              (case parsed of None \<Rightarrow> None | Some p \<Rightarrow> parsed_preferences p)
              None
      in Inr (state\<lparr>pl_mission := Some mission, pl_mission_id := Some (m_id mission)\<rparr>, s1))"

definition to_proposed_block :: "Block \<Rightarrow> ProposedBlock" where
  \<comment> \<open>the \<^verbatim>\<open>ProposedBlock(...)\<close> that \<^verbatim>\<open>_propose_blocks\<close> builds from a block\<close>
  "to_proposed_block b =
     ProposedBlock_validate
       \<lparr>pb_title = (case b_title b of None \<Rightarrow> [] | Some t \<Rightarrow> t),
        pb_plan_note = b_plan_note b,
        pb_suggested_date = map_option timestamp_date (b_scheduled_start b),
        pb_suggested_duration_minutes =
          (case b_planned_duration_minutes b of
             None \<Rightarrow> 25
           | Some d \<Rightarrow> if d \<noteq> 0 then d else 25),
        pb_sequence_index = (case b_sequence_index b of None \<Rightarrow> 0 | Some i \<Rightarrow> i)\<rparr>"

definition propose_blocks :: "PlannerState \<times> sys \<Rightarrow> error + PlannerState \<times> sys" where
  \<comment> \<open>\<^verbatim>\<open>PlannerGraph._propose_blocks\<close>\<close>
  "propose_blocks st =
     (let state = fst st; s = snd st in
      case pl_mission state of
        None \<Rightarrow> Inr (state\<lparr>pl_errors := pl_errors state @ [''No mission created'']\<rparr>, s)
      | Some mission_data \<Rightarrow>
          (case propose_blocks_for_mission s (m_id mission_data) None 5 25 of
             Inl e \<Rightarrow> Inl e
           | Inr (proposed, s1) \<Rightarrow>
               Inr (state\<lparr>pl_proposed_blocks := Some (map to_proposed_block proposed)\<rparr>,
                    s1)))"

definition summarize ::
  "(rat \<Rightarrow> string) \<Rightarrow> (date \<Rightarrow> string) \<Rightarrow> PlannerState \<times> sys \<Rightarrow>
   error + PlannerState \<times> sys" where
  \<comment> \<open>\<^verbatim>\<open>PlannerGraph._summarize\<close>; \<open>fmt1\<close> renders a float as the format \<^verbatim>\<open>.1f\<close>
      does, \<open>fmt_date\<close> a date as \<^verbatim>\<open>str\<close> does\<close>
  "summarize fmt1 fmt_date st =
     (let state = fst st; s = snd st;
          proposed_blocks = (case pl_proposed_blocks state of None \<Rightarrow> [] | Some b \<Rightarrow> b);
          summary0 =
            ''Created mission: '' @
            (case pl_mission state of None \<Rightarrow> ''Untitled'' | Some m \<Rightarrow> m_title m);
          summary =
            (if proposed_blocks \<noteq> []
             then summary0 @ '' with '' @ str_nat (length proposed_blocks) @
                  '' proposed sessions''
             else summary0);
          rationale_parts =
            (case pl_mission state of
               None \<Rightarrow> []
             | Some m \<Rightarrow>
                 (case m_deadline_date m of
                    None \<Rightarrow> []
                  | Some d \<Rightarrow> [''Deadline: '' @ fmt_date d]) @
                 (case m_estimated_total_minutes m of
                    None \<Rightarrow> []
                  | Some n \<Rightarrow>
                      if n \<noteq> 0
                      then [''Estimated effort: '' @ fmt1 (of_int n / 60) @ '' hours'']
                      else []));
          rationale =
            (if rationale_parts \<noteq> [] then Some (join ''. '' rationale_parts) else None)
      in Inr (state\<lparr>pl_summary := Some summary, pl_rationale := rationale,
                     pl_similar_missions_note := pl_history_note state\<rparr>, s))"

definition planner_graph ::
  "(rat \<Rightarrow> string) \<Rightarrow> (date \<Rightarrow> string) \<Rightarrow> PlannerState \<times> sys \<Rightarrow>
   error + PlannerState \<times> sys" where
  \<comment> \<open>\<^verbatim>\<open>PlannerGraph.build().compile().ainvoke\<close>: the five nodes in the order of the
      edges\<close>
  "planner_graph fmt1 fmt_date st =
     then_node (then_node (then_node (then_node
       (parse_input st) check_history) build_mission) propose_blocks)
       (summarize fmt1 fmt_date)"

definition run_planner ::
  "(rat \<Rightarrow> string) \<Rightarrow> (date \<Rightarrow> string) \<Rightarrow> sys \<Rightarrow> string \<Rightarrow> PlanMissionRequest \<Rightarrow>
   error + PlanMissionResponse \<times> sys" where
  "run_planner fmt1 fmt_date s user_id req =
     (let initial_state =
            \<lparr>pl_user_id = user_id, pl_mission_id = None, pl_request = req,
             pl_parsed_input = None, pl_similar_missions = None, pl_history_note = None,
             pl_mission = None, pl_proposed_blocks = None, pl_summary = None,
             pl_rationale = None, pl_similar_missions_note = None, pl_scratchpad = [],
             pl_errors = []\<rparr>
      in case planner_graph fmt1 fmt_date (initial_state, s) of
           Inl e \<Rightarrow> Inl e
         | Inr (final_state, s') \<Rightarrow>
             (let mission =
                    (case pl_mission final_state of
                       Some m \<Rightarrow> m
                     | None \<Rightarrow>
                         Mission_validate
                           \<lparr>m_id = [], m_user_id = user_id,
                            m_title = ''Failed to create mission'', m_description = None,
                            m_kind = MK_OTHER, m_status = MS_ACTIVE, m_priority = MP_MEDIUM,
                            m_created_at = now_local s', m_updated_at = now_local s',
                            m_planned_start_date = None, m_deadline_date = None,
                            m_estimated_total_minutes = None, m_tags = [],
                            m_graph_links = [],
                            m_constraints = MissionConstraints_default,
                            m_preferences = MissionPreferences_default,
                            m_archived = False\<rparr>)
              in Inr (PlanMissionResponse_validate
                        \<lparr>pr_mission = mission,
                         pr_proposed_blocks =
                           map ProposedBlock_validate
                             (case pl_proposed_blocks final_state of
                                None \<Rightarrow> [] | Some b \<Rightarrow> b),
                         pr_summary =
                           (case pl_summary final_state of None \<Rightarrow> [] | Some x \<Rightarrow> x),
                         pr_rationale = pl_rationale final_state,
                         pr_similar_missions_note = pl_similar_missions_note final_state,
                         pr_warnings = pl_errors final_state,
                         pr_suggestions = []\<rparr>, s')))"

section \<open>Coach graph (graphs/coach\_graph.py)\<close>

record UiState =
  ui_focus_mode_active :: bool
  ui_timer_running :: bool
  ui_timer_remaining_seconds :: int

text \<open>
  The state dict of one coach run: \<open>co_request\<close> is \<^verbatim>\<open>outputs["request"]\<close>,
  \<open>co_errors\<close> is \<^verbatim>\<open>state["errors"]\<close>, each other field but the first is a key of
  \<^verbatim>\<open>outputs\<close>.
\<close>

record CoachState =
  co_user_id :: string
  co_request :: RunSessionRequest
  co_mission :: "Mission option"
  co_current_block :: "Block option"
  co_today_blocks :: "Block list option"
  co_selected_block :: "Block option"
  co_is_continuation :: "bool option"
  co_brief :: "string option"
  co_actions :: "SessionAction list option"
  co_recommended_duration :: "int option"
  co_ui_state :: "UiState option"
  co_errors :: "string list"

definition load_context :: "CoachState \<times> sys \<Rightarrow> error + CoachState \<times> sys" where
  \<comment> \<open>\<^verbatim>\<open>CoachGraph._load_context\<close>\<close>
  "load_context st =
     (let state = fst st; s = snd st;
          user_id = co_user_id state;
          request_data = co_request state;
          mission =
            (case truthy_str (rs_mission_id request_data) of
               Some mission_id \<Rightarrow> get_mission s mission_id
             | None \<Rightarrow> get_active_mission s user_id)
      in case (case truthy_str (rs_block_id request_data) of
                 Some block_id \<Rightarrow> Inr (get_block s block_id)
               | None \<Rightarrow> get_current_block s user_id) of
           Inl e \<Rightarrow> Inl e
         | Inr block \<Rightarrow>
             (case get_today_blocks s user_id of
                Inl e \<Rightarrow> Inl e
              | Inr today_blocks \<Rightarrow>
                  Inr (state\<lparr>co_mission := mission, co_current_block := block,
                             co_today_blocks := Some today_blocks\<rparr>, s)))"

definition decide_block :: "CoachState \<times> sys \<Rightarrow> error + CoachState \<times> sys" where
  \<comment> \<open>\<^verbatim>\<open>CoachGraph._decide_block\<close>\<close>
  "decide_block st =
     (let state = fst st; s = snd st;
          user_id = co_user_id state;
          request_data = co_request state;
          requested =
            (case truthy_str (rs_block_id request_data) of
               None \<Rightarrow> None
             | Some block_id \<Rightarrow> get_block s block_id)
      in if (case co_current_block state of
               None \<Rightarrow> False
             | Some current_block \<Rightarrow> b_status current_block = IN_PROGRESS)
         then Inr (state\<lparr>co_selected_block := co_current_block state,
                          co_is_continuation := Some True\<rparr>, s)
         else if requested \<noteq> None
         then Inr (state\<lparr>co_selected_block := requested,
                          co_is_continuation := Some False\<rparr>, s)
         else
           (let mission_id = map_option m_id (co_mission state) in
            case get_next_planned_block s user_id mission_id of
              Inl e \<Rightarrow> Inl e
            | Inr (Some next_block) \<Rightarrow>
                Inr (state\<lparr>co_selected_block := Some next_block,
                           co_is_continuation := Some False\<rparr>, s)
            | Inr None \<Rightarrow>
                (case truthy_str mission_id of
                   Some m \<Rightarrow>
                     (let duration =
                            (case rs_available_minutes request_data of
                               None \<Rightarrow> 25
                             | Some a \<Rightarrow> if a \<noteq> 0 then a else 25)
                      in case create_block s user_id m None None None duration of
                           Inl e \<Rightarrow> Inl e
                         | Inr (new_block, s1) \<Rightarrow>
                             Inr (state\<lparr>co_selected_block := Some new_block,
                                        co_is_continuation := Some False\<rparr>, s1))
                 | None \<Rightarrow>
                     Inr (state\<lparr>co_errors :=
                                   co_errors state @ [''No mission or block available'']\<rparr>,
                          s))))"

definition str_optional_int :: "int option \<Rightarrow> string" where
  \<comment> \<open>how an f-string renders a value that is an int or \<^verbatim>\<open>None\<close>\<close>
  "str_optional_int x = (case x of None \<Rightarrow> ''None'' | Some i \<Rightarrow> str_int i)"

definition generate_brief :: "CoachState \<times> sys \<Rightarrow> error + CoachState \<times> sys" where
  \<comment> \<open>\<^verbatim>\<open>CoachGraph._generate_brief\<close>. A dumped block has every key, so
      \<^verbatim>\<open>block_data.get("planned_duration_minutes", 25)\<close> is the block's value, also
      when that is \<^verbatim>\<open>None\<close>; the comparison \<^verbatim>\<open>duration >= 40\<close> then raises
      \<^verbatim>\<open>TypeError\<close>.\<close>
  "generate_brief st =
     (let state = fst st; s = snd st in
      case co_selected_block state of
        None \<Rightarrow>
          Inr (state\<lparr>co_brief :=
                        Some (''Let'' @ [CHR 0x27] @
                              ''s get you started. What would you like to work on?''),
                      co_actions := Some []\<rparr>, s)
      | Some block_data \<Rightarrow>
          (let mission_title =
                 (case co_mission state of None \<Rightarrow> ''your work'' | Some m \<Rightarrow> m_title m);
               block_title = (case b_title block_data of None \<Rightarrow> ''None'' | Some t \<Rightarrow> t);
               duration = b_planned_duration_minutes block_data;
               is_continuation =
                 (case co_is_continuation state of None \<Rightarrow> False | Some c \<Rightarrow> c);
               plan_note = truthy_str (b_plan_note block_data);
               brief =
                 (if is_continuation
                  then ''Continuing your session on '' @ mission_title @ ''. You'' @
                       [CHR 0x27] @ ''ve got this.''
                  else ''Let'' @ [CHR 0x27] @ ''s do a '' @ str_optional_int duration @
                       ''-minute block on '' @ mission_title @ ''.'' @
                       (case plan_note of None \<Rightarrow> [] | Some n \<Rightarrow> '' Focus: '' @ n));
               actions1 =
                 [SessionAction_validate
                    \<lparr>sa_description =
                       (case plan_note of None \<Rightarrow> ''Work on '' @ block_title | Some n \<Rightarrow> n),
                     sa_estimated_minutes = duration, sa_is_stretch_goal = False\<rparr>]
           in case duration of
                None \<Rightarrow> Inl (TypeError ''>= not supported between NoneType and int'')
              | Some d \<Rightarrow>
                  (let actions =
                         (if 40 \<le> d
                          then actions1 @
                               [SessionAction_validate
                                  \<lparr>sa_description = ''Review what you completed'',
                                   sa_estimated_minutes = Some 5,
                                   sa_is_stretch_goal = True\<rparr>]
                          else actions1)
                   in Inr (state\<lparr>co_brief := Some brief, co_actions := Some actions,
                                  co_recommended_duration := Some d\<rparr>, s))))"

definition start_session :: "CoachState \<times> sys \<Rightarrow> error + CoachState \<times> sys" where
  \<comment> \<open>\<^verbatim>\<open>CoachGraph._start_session\<close>. \<^verbatim>\<open>UITools.focus_mode_on\<close> changes only the
      graph object's own UI record, which no response reads.\<close>
  "start_session st =
     (let state = fst st; s = snd st in
      case co_selected_block state of
        None \<Rightarrow> Inr (state, s)
      | Some block_data \<Rightarrow>
          (case (if b_status block_data \<noteq> IN_PROGRESS
                 then (case start_block s (b_id block_data) of
                         Inl e \<Rightarrow> Inl e
                       | Inr (Some block, s') \<Rightarrow>
                           Inr (state\<lparr>co_selected_block := Some block\<rparr>, s')
                       | Inr (None, s') \<Rightarrow> Inr (state, s'))
                 else Inr (state, s)) of
             Inl e \<Rightarrow> Inl e
           | Inr (state1, s1) \<Rightarrow>
               (let duration =
                      (case co_recommended_duration state1 of None \<Rightarrow> 25 | Some d \<Rightarrow> d)
                in Inr (state1\<lparr>co_ui_state :=
                                  Some \<lparr>ui_focus_mode_active = True, ui_timer_running = True,
                                        ui_timer_remaining_seconds = duration * 60\<rparr>\<rparr>,
                        s1))))"

definition coach_graph :: "CoachState \<times> sys \<Rightarrow> error + CoachState \<times> sys" where
  \<comment> \<open>\<^verbatim>\<open>CoachGraph.build().compile().ainvoke\<close>: the four nodes in the order of the
      edges\<close>
  "coach_graph st =
     then_node (then_node (then_node (load_context st) decide_block) generate_brief)
       start_session"

definition run_coach ::
  "sys \<Rightarrow> string \<Rightarrow> RunSessionRequest \<Rightarrow> error + RunSessionResponse \<times> sys" where
  "run_coach s user_id req =
     (let initial_state =
            \<lparr>co_user_id = user_id, co_request = req, co_mission = None,
             co_current_block = None, co_today_blocks = None, co_selected_block = None,
             co_is_continuation = None, co_brief = None, co_actions = None,
             co_recommended_duration = None, co_ui_state = None, co_errors = []\<rparr>
      in case coach_graph (initial_state, s) of
           Inl e \<Rightarrow> Inl e
         | Inr (final_state, s') \<Rightarrow>
             (let (block, s'') =
                    (case co_selected_block final_state of
                       Some b \<Rightarrow> (b, s')
                     | None \<Rightarrow>
                         (let (i, s1) = new_id s' in
                          (Block_validate
                             \<lparr>b_id = i, b_user_id = user_id, b_mission_id = [],
                              b_sequence_index = None, b_scheduled_start = None,
                              b_scheduled_end = None, b_planned_duration_minutes = None,
                              b_actual_start = None, b_actual_end = None,
                              b_status = PLANNED, b_title = None, b_plan_note = None,
                              b_outcome_note = None, b_completion_ratio = None,
                              b_location_hint = None, b_device_hint = None\<rparr>, s1)))
              in Inr (RunSessionResponse_validate
                        \<lparr>rr_block = block,
                         rr_actions =
                           map SessionAction_validate
                             (case co_actions final_state of None \<Rightarrow> [] | Some a \<Rightarrow> a),
                         rr_brief =
                           (case co_brief final_state of
                              None \<Rightarrow> ''Ready to focus?'' | Some b \<Rightarrow> b),
                         rr_recommended_duration_minutes =
                           (case co_recommended_duration final_state of
                              None \<Rightarrow> 25 | Some d \<Rightarrow> d),
                         rr_break_after_minutes = None,
                         rr_show_timer = True, rr_enable_leak_tracking = True,
                         rr_warnings = co_errors final_state\<rparr>, s'')))"

definition GraphRouter_call_graph ::
  "(rat \<Rightarrow> string) \<Rightarrow> (date \<Rightarrow> string) \<Rightarrow> bool \<Rightarrow> sys \<Rightarrow> entrypoint_arg \<Rightarrow> string \<Rightarrow> request \<Rightarrow>
   error + response \<times> sys" where
  \<comment> \<open>the router on the three graphs\<close>
  "GraphRouter_call_graph fmt1 fmt_date =
     call_graph (run_planner fmt1 fmt_date) run_coach (run_archivist fmt1)"


section \<open>Example values\<close>



definition in_range_episodes :: "sys \<Rightarrow> string \<Rightarrow> date \<Rightarrow> date \<Rightarrow> Episode list" where
  \<comment> \<open>the episodes of a user whose creation date lies in a date range, as stored\<close>
  "in_range_episodes s user_id start_date end_date =
     filter (\<lambda>e. e_user_id e = user_id \<and> start_date \<le> datetime_date (e_created_at e) \<and>
                  datetime_date (e_created_at e) \<le> end_date)
       (map snd (episodes s))"

definition focused_minutes :: "Episode \<Rightarrow> int" where
  \<comment> \<open>an episode's \<^verbatim>\<open>time_focused_minutes\<close>, nothing when it is \<^verbatim>\<open>None\<close>\<close>
  "focused_minutes e = (case e_time_focused_minutes e of None \<Rightarrow> 0 | Some n \<Rightarrow> n)"

definition empty_sys :: sys where
  \<comment> \<open>fresh in-memory repositories on 2024-01-02 (ordinal 738887), no semantic memory\<close>
  "empty_sys =
     \<lparr>missions = [], blocks = [], episodes = [], profiles = [], semantic_memory = None,
      today = 738887, now_utc = 738886 * micros_per_day + 12 * micros_per_hour,
      now_local = 738886 * micros_per_day + 12 * micros_per_hour,
      new_ids = (\<lambda>n. ''id-'' @ str_nat n), id_calls = 0\<rparr>"

definition example_episode :: "string \<Rightarrow> EpisodeKind \<Rightarrow> int option \<Rightarrow> Episode" where
  \<comment> \<open>an episode of user \<^verbatim>\<open>u1\<close> created on 2024-01-02 at noon\<close>
  "example_episode i k focused =
     \<lparr>e_id = i, e_user_id = ''u1'', e_kind = k,
      e_created_at = 738886 * micros_per_day + 12 * micros_per_hour,
      e_mission_id = None, e_block_id = None, e_title = None, e_summary = ''done'',
      e_reflection = None, e_mood_before = None, e_mood_after = None,
      e_focus_score = None, e_energy_score = None, e_time_focused_minutes = focused,
      e_time_leaked_minutes = None, e_leaks = [], e_tags = [], e_meta = []\<rparr>"

definition reflect_request :: "ReflectPeriodKind \<Rightarrow> ReflectPeriodRequest" where
  \<comment> \<open>\<^verbatim>\<open>ReflectPeriodRequest(kind=k)\<close>\<close>
  "reflect_request k =
     \<lparr>rp_kind = k, rp_mission_id = None, rp_block_id = None, rp_start_date = None,
      rp_end_date = None, rp_user_reflection = None, rp_focus_score = None,
      rp_energy_score = None, rp_surface = FOCUS_DOCK\<rparr>"

definition scenario_b_sys :: sys where
  \<comment> \<open>scenario B: two episodes today, a session with 30 focused minutes and a day\<close>
  "scenario_b_sys =
     empty_sys\<lparr>episodes :=
       [(''e1'', example_episode ''e1'' EK_SESSION (Some 30)),
        (''e2'', example_episode ''e2'' EK_DAY None)]\<rparr>"

definition many_episodes_sys :: sys where
  \<comment> \<open>51 session episodes today, one focused minute each\<close>
  "many_episodes_sys =
     empty_sys\<lparr>episodes :=
       map (\<lambda>i. (str_nat i, example_episode (str_nat i) EK_SESSION (Some 1))) [0..<51]\<rparr>"

definition no_format :: "rat \<Rightarrow> string" where
  \<comment> \<open>a stand-in for the float formatter where no float is rendered\<close>
  "no_format x = []"

definition response_rate ::
  "error + ReflectPeriodResponse \<times> sys \<Rightarrow> (int \<times> rat option) option" where
  \<comment> \<open>\<^verbatim>\<open>blocks_completed\<close> and \<^verbatim>\<open>completion_rate\<close> of the response of a run that
      returned\<close>
  "response_rate r =
     (case r of
        Inl e \<Rightarrow> None
      | Inr (resp, s) \<Rightarrow> Some (rf_blocks_completed resp, rf_completion_rate resp))"

definition example_block :: "string \<Rightarrow> string \<Rightarrow> BlockStatus \<Rightarrow> int option \<Rightarrow> Block" where
  \<comment> \<open>a block of user \<^verbatim>\<open>u1\<close> scheduled on 2024-01-02 at 9:00\<close>
  "example_block i mission_id status duration =
     \<lparr>b_id = i, b_user_id = ''u1'', b_mission_id = mission_id, b_sequence_index = Some 0,
      b_scheduled_start = Some (Naive (datetime_combine_hour 738887 9)),
      b_scheduled_end = None,
      b_planned_duration_minutes = duration, b_actual_start = None, b_actual_end = None,
      b_status = status, b_title = Some ''Read chapter 5'', b_plan_note = None,
      b_outcome_note = None, b_completion_ratio = None, b_location_hint = None,
      b_device_hint = None\<rparr>"

definition example_mission :: "string \<Rightarrow> MissionStatus \<Rightarrow> Mission" where
  \<comment> \<open>a mission of user \<^verbatim>\<open>u1\<close>\<close>
  "example_mission i status =
     \<lparr>m_id = i, m_user_id = ''u1'', m_title = ''Organic chemistry'', m_description = None,
      m_kind = MK_EXAM, m_status = status, m_priority = MP_MEDIUM,
      m_created_at = 738880 * micros_per_day, m_updated_at = 738880 * micros_per_day,
      m_planned_start_date = None, m_deadline_date = None,
      m_estimated_total_minutes = None, m_tags = [], m_graph_links = [],
      m_constraints = MissionConstraints_default,
      m_preferences = MissionPreferences_default, m_archived = False\<rparr>"

definition session_request :: "string option \<Rightarrow> string option \<Rightarrow> int option \<Rightarrow> RunSessionRequest" where
  \<comment> \<open>\<^verbatim>\<open>RunSessionRequest(mission_id=m, block_id=b, available_minutes=a)\<close>\<close>
  "session_request m b a =
     \<lparr>rs_mission_id = m, rs_block_id = b, rs_available_minutes = a, rs_energy_level = None,
      rs_mood_note = None, rs_surface = FOCUS_DOCK, rs_is_continuation = False,
      rs_adjustment_request = None\<rparr>"

definition coach_view ::
  "error + RunSessionResponse \<times> sys \<Rightarrow>
   (string \<times> BlockStatus \<times> int option \<times> string list \<times> bool list \<times> nat) option" where
  \<comment> \<open>of a run that returned: the id, status and planned duration of the response's
      block, the warnings, the stretch flags of the actions, and the number of blocks
      the repository holds afterwards\<close>
  "coach_view r =
     (case r of
        Inl e \<Rightarrow> None
      | Inr (resp, s) \<Rightarrow>
          Some (b_id (rr_block resp), b_status (rr_block resp),
                b_planned_duration_minutes (rr_block resp), rr_warnings resp,
                map sa_is_stretch_goal (rr_actions resp), length (blocks s)))"

definition scheduled_today :: "sys \<Rightarrow> string \<Rightarrow> Block list" where
  \<comment> \<open>the blocks of a user whose scheduled start falls on today, as stored\<close>
  "scheduled_today s user_id =
     filter (\<lambda>b. b_user_id b = user_id \<and>
                 (case b_scheduled_start b of
                    None \<Rightarrow> False
                  | Some t \<Rightarrow> timestamp_date t = today s))
       (map snd (blocks s))"

definition in_progress_blocks :: "sys \<Rightarrow> string \<Rightarrow> Block list" where
  \<comment> \<open>the blocks of a user that are in progress, as stored\<close>
  "in_progress_blocks s user_id =
     filter (\<lambda>b. b_user_id b = user_id \<and> b_status b = IN_PROGRESS) (map snd (blocks s))"

definition active_missions :: "sys \<Rightarrow> string \<Rightarrow> Mission list" where
  \<comment> \<open>the active missions of a user, as stored\<close>
  "active_missions s user_id =
     filter (\<lambda>m. m_user_id m = user_id \<and> m_status m = MS_ACTIVE) (map snd (missions s))"

definition new_block_of :: "sys \<Rightarrow> string \<Rightarrow> string \<Rightarrow> int \<Rightarrow> Block" where
  \<comment> \<open>the first block of a mission, made for a user with a planned duration: it has the
      next new id, belongs to the user and the mission (ids are stored without
      surrounding white space, as in every model), is planned and not scheduled\<close>
  "new_block_of s user_id mission_id duration =
     \<lparr>b_id = strip (new_ids s (id_calls s)), b_user_id = strip user_id,
      b_mission_id = strip mission_id, b_sequence_index = Some 0,
      b_scheduled_start = None, b_scheduled_end = None,
      b_planned_duration_minutes = Some duration, b_actual_start = None,
      b_actual_end = None, b_status = PLANNED, b_title = None, b_plan_note = None,
      b_outcome_note = None, b_completion_ratio = None, b_location_hint = None,
      b_device_hint = None\<rparr>"

definition starts_of_one_kind :: "Block list \<Rightarrow> bool" where
  \<comment> \<open>the scheduled starts of the blocks are all naive or all aware\<close>
  "starts_of_one_kind blks =
     (list_all (\<lambda>b. case b_scheduled_start b of Some (Aware w off) \<Rightarrow> False | _ \<Rightarrow> True) blks \<or>
      list_all (\<lambda>b. case b_scheduled_start b of Some (Naive w) \<Rightarrow> False | _ \<Rightarrow> True) blks)"

definition planned_today_sys :: sys where
  \<comment> \<open>user \<^verbatim>\<open>u1\<close> has a paused mission with one planned block scheduled today:
      no active mission, no block in progress\<close>
  "planned_today_sys =
     empty_sys\<lparr>missions := [(''m1'', example_mission ''m1'' MS_PAUSED)],
               blocks := [(''b1'', example_block ''b1'' ''m1'' PLANNED (Some 25))]\<rparr>"

definition idle_user_sys :: sys where
  \<comment> \<open>user \<^verbatim>\<open>u1\<close> has a paused mission and one completed block scheduled today\<close>
  "idle_user_sys =
     empty_sys\<lparr>missions := [(''m1'', example_mission ''m1'' MS_PAUSED)],
               blocks := [(''b1'', example_block ''b1'' ''m1'' COMPLETED (Some 25))]\<rparr>"

definition mixed_kinds_sys :: sys where
  \<comment> \<open>user \<^verbatim>\<open>u1\<close> has a paused mission and two completed blocks scheduled today,
      one with a naive start (as \<^verbatim>\<open>propose_blocks_for_mission\<close> makes it) and one with
      an aware start at 10:00 UTC\<close>
  "mixed_kinds_sys =
     empty_sys\<lparr>missions := [(''m1'', example_mission ''m1'' MS_PAUSED)],
               blocks :=
                 [(''b1'', example_block ''b1'' ''m1'' COMPLETED (Some 25)),
                  (''b2'', (example_block ''b2'' ''m1'' COMPLETED (Some 25))
                     \<lparr>b_scheduled_start :=
                        Some (Aware (datetime_combine_hour 738887 10) 0)\<rparr>)]\<rparr>"

definition coach_block :: "error + RunSessionResponse \<times> sys \<Rightarrow> Block option" where
  \<comment> \<open>the block of the response of a run that returned\<close>
  "coach_block r = (case r of Inl e \<Rightarrow> None | Inr (resp, s) \<Rightarrow> Some (rr_block resp))"

definition coach_error :: "error + RunSessionResponse \<times> sys \<Rightarrow> error option" where
  \<comment> \<open>the exception of a run that raised\<close>
  "coach_error r = (case r of Inl e \<Rightarrow> Some e | Inr x \<Rightarrow> None)"

definition stored_block :: "error + RunSessionResponse \<times> sys \<Rightarrow> string \<Rightarrow> Block option" where
  \<comment> \<open>what the blocks repository holds under an id after a run that returned\<close>
  "stored_block r i = (case r of Inl e \<Rightarrow> None | Inr (resp, s) \<Rightarrow> blocks_repo_get s i)"

definition busy_user_sys :: sys where
  \<comment> \<open>mission \<^verbatim>\<open>m2\<close> has no block; a block of mission \<^verbatim>\<open>m1\<close> is in progress\<close>
  "busy_user_sys =
     empty_sys\<lparr>missions := [(''m1'', example_mission ''m1'' MS_ACTIVE),
                            (''m2'', example_mission ''m2'' MS_ACTIVE)],
               blocks := [(''b1'', example_block ''b1'' ''m1'' IN_PROGRESS (Some 25))]\<rparr>"

definition fresh_mission_sys :: sys where
  \<comment> \<open>scenario C: mission \<^verbatim>\<open>m2\<close> has no block, and no block is in progress\<close>
  "fresh_mission_sys =
     empty_sys\<lparr>missions := [(''m2'', example_mission ''m2'' MS_ACTIVE)]\<rparr>"

definition no_duration_sys :: sys where
  \<comment> \<open>a completed block whose \<^verbatim>\<open>planned_duration_minutes\<close> is \<^verbatim>\<open>None\<close>, the
      field's default\<close>
  "no_duration_sys =
     empty_sys\<lparr>missions := [(''m1'', example_mission ''m1'' MS_ACTIVE)],
               blocks := [(''b1'', example_block ''b1'' ''m1'' COMPLETED None)]\<rparr>"

definition completed_block_sys :: sys where
  \<comment> \<open>a completed block of 25 planned minutes\<close>
  "completed_block_sys =
     empty_sys\<lparr>missions := [(''m1'', example_mission ''m1'' MS_ACTIVE)],
               blocks := [(''b1'', example_block ''b1'' ''m1'' COMPLETED (Some 25))]\<rparr>"

definition scenario_a_request :: PlanMissionRequest where
  "scenario_a_request =
     \<lparr>pm_raw_input = ''organic chem final monday, cs project wednesday'', pm_kind = None,
      pm_deadline = None, pm_estimated_hours = None, pm_constraints = None,
      pm_preferences = None, pm_surface = SURFACE_OTHER, pm_graph_context = []\<rparr>"

definition no_date_format :: "date \<Rightarrow> string" where
  \<comment> \<open>a stand-in for the date formatter where no date is rendered\<close>
  "no_date_format d = []"

definition planner_view ::
  "error + PlanMissionResponse \<times> sys \<Rightarrow>
   (string \<times> MissionKind \<times> int list \<times> int list) option" where
  \<comment> \<open>of a run that returned: the mission's title and kind, and the sequence indices
      and durations of the proposed blocks\<close>
  "planner_view r =
     (case r of
        Inl e \<Rightarrow> None
      | Inr (resp, s) \<Rightarrow>
          Some (m_title (pr_mission resp), m_kind (pr_mission resp),
                map pb_sequence_index (pr_proposed_blocks resp),
                map pb_suggested_duration_minutes (pr_proposed_blocks resp)))"

definition candidate_days :: "date \<Rightarrow> int \<Rightarrow> date list" where
  \<comment> \<open>the candidate days of a proposal: the start day and, for each further candidate,
      the calendar day after the previous one\<close>
  "candidate_days start num_blocks = map (\<lambda>i. start + int i) [0..<nat num_blocks]"

definition preferred_duration :: "Mission \<Rightarrow> int" where
  \<comment> \<open>the mission's first preferred block length, or 25 minutes when no preference is
      set\<close>
  "preferred_duration mission =
     (case preferred_block_lengths (m_preferences mission) of
        None \<Rightarrow> 25
      | Some [] \<Rightarrow> 25
      | Some (l # ls) \<Rightarrow> l)"

definition start_time :: "Block \<Rightarrow> (bool \<times> int \<times> int \<times> int \<times> int) option" where
  \<comment> \<open>of a block's scheduled start: whether it is aware, and the hour, minute, second
      and microsecond of its wall clock reading\<close>
  "start_time b =
     map_option
       (\<lambda>t. (is_aware t, datetime_hour (wall_clock t), datetime_minute (wall_clock t),
             datetime_second (wall_clock t), datetime_microsecond (wall_clock t)))
       (b_scheduled_start b)"

definition proposal_view ::
  "error + Block list \<times> sys \<Rightarrow>
   (int option \<times> date option \<times> (bool \<times> int \<times> int \<times> int \<times> int) option \<times> int option) list option" where
  \<comment> \<open>of a proposal that returned: each block's sequence index, scheduled day, start
      time and planned duration\<close>
  "proposal_view r =
     (case r of
        Inl e \<Rightarrow> None
      | Inr (blks, s) \<Rightarrow>
          Some (map (\<lambda>b. (b_sequence_index b, map_option timestamp_date (b_scheduled_start b),
                          start_time b, b_planned_duration_minutes b)) blks))"

definition weekend_off_sys :: sys where
  \<comment> \<open>a mission that keeps Saturday and Sunday free and prefers 40-minute blocks;
      today, 2024-01-02, is a Tuesday\<close>
  "weekend_off_sys =
     empty_sys\<lparr>missions :=
       [(''m1'', (example_mission ''m1'' MS_ACTIVE)
          \<lparr>m_constraints := MissionConstraints_default\<lparr>days_off := [5, 6]\<rparr>,
           m_preferences :=
             MissionPreferences_default\<lparr>preferred_block_lengths := Some [40, 25]\<rparr>\<rparr>)]\<rparr>"

definition stretch_action :: SessionAction where
  \<comment> \<open>the five-minute stretch-goal action of \<^verbatim>\<open>_generate_brief\<close>\<close>
  "stretch_action =
     \<lparr>sa_description = ''Review what you completed'', sa_estimated_minutes = Some 5,
      sa_is_stretch_goal = True\<rparr>"

section \<open>Properties\<close>

subsection \<open>Shared workflow state\<close>

















subsection \<open>Router\<close>

lemma call_graph_debug_disabled:
  "call_graph pm rs rf False s (Member PLAN_MISSION) u (PlanMissionRequest_of r) =
     map_sum id (map_prod PlanMissionResponse_of id) (pm s u r)"
  "call_graph pm rs rf False s (Member RUN_SESSION) u (RunSessionRequest_of r2) =
     map_sum id (map_prod RunSessionResponse_of id) (rs s u r2)"
  "call_graph pm rs rf False s (Member REFLECT_PERIOD) u (ReflectPeriodRequest_of r3) =
     map_sum id (map_prod ReflectPeriodResponse_of id) (rf s u r3)"
  "call_graph pm rs rf False s (Member CHAT) u req =
     Inl (validation_error
           ''Chat should be handled by GlyphAgentService, not the router'' ''chat'')"
  "call_graph pm rs rf False s (OtherEnumMember x) u req =
     Inl (validation_error (''Unknown entrypoint: '' @ x) x)"
  by (simp_all add: call_graph_def logger_debug_kwargs_def)

lemma call_graph_debug_disabled_mismatch:
  "type_name req \<noteq> ''PlanMissionRequest'' \<Longrightarrow>
   call_graph pm rs rf False s (Member PLAN_MISSION) u req =
     Inl (validation_error (''Expected PlanMissionRequest, got '' @ type_name req)
           ''plan_mission'')"
  "type_name req \<noteq> ''RunSessionRequest'' \<Longrightarrow>
   call_graph pm rs rf False s (Member RUN_SESSION) u req =
     Inl (validation_error (''Expected RunSessionRequest, got '' @ type_name req)
           ''run_session'')"
  "type_name req \<noteq> ''ReflectPeriodRequest'' \<Longrightarrow>
   call_graph pm rs rf False s (Member REFLECT_PERIOD) u req =
     Inl (validation_error (''Expected ReflectPeriodRequest, got '' @ type_name req)
           ''reflect_period'')"
  by (cases req; simp add: call_graph_def logger_debug_kwargs_def)+

text \<open>
  C7. The router's generic dispatch is to fail with a validation error on a request of
  the wrong type, on the chat entry point and on an unknown entry point, and to return
  the graph's response otherwise. The code does so only while its logger is not enabled
  for DEBUG: the first statement of \<^verbatim>\<open>call_graph\<close> logs with keyword arguments, and
  once DEBUG is enabled that statement raises \<^verbatim>\<open>TypeError\<close> for every member of the
  enum and every request, before any validation and before any graph is run.
\<close>

theorem call_graph_debug_enabled_raises_TypeError:
  "call_graph pm rs rf True s (Member ep) u req =
     Inl (TypeError ''Logger._log() got an unexpected keyword argument entrypoint'')"
  by (simp add: call_graph_def logger_debug_kwargs_def)

subsection \<open>Archivist\<close>

lemma load_period_data_period:
  assumes "load_period_data (state, s) = Inr (state', s')"
  shows "\<exists>p. ar_period state' = Some p \<and>
             period_kind p = ReflectPeriodKind_value (rp_kind (ar_request state)) \<and>
             ar_request state' = ar_request state \<and> ar_user_id state' = ar_user_id state"
  using assms
  by (auto simp: load_period_data_def Let_def split_def split: sum.splits if_splits)

lemma load_period_data_block_day:
  assumes "rp_kind (ar_request state) = RK_BLOCK \<or> rp_kind (ar_request state) = RK_DAY"
  shows "\<exists>state' s'. load_period_data (state, s) = Inr (state', s')"
  using assms by (auto simp: load_period_data_def Let_def split_def)

lemma compute_stats_result:
  assumes "ar_period state = Some p"
  shows "\<exists>stats. compute_stats (state, s) =
           Inr (state\<lparr>ar_stats := Some stats\<rparr>, s) \<and>
           st_completion_rate stats =
             (if 0 < st_blocks_completed stats
              then Some (min 1 (of_int (st_blocks_completed stats) / 5)) else None)"
  using assms
  by (auto simp: compute_stats_def Let_def compute_period_stats_def split: prod.splits)

lemma identify_patterns_result:
  "\<exists>state'. identify_patterns fmt1 (state, s) = Inr (state', s) \<and>
     ar_period state' = ar_period state \<and> ar_stats state' = ar_stats state \<and>
     ar_request state' = ar_request state \<and> ar_user_id state' = ar_user_id state"
  by (simp add: identify_patterns_def Let_def)

lemma write_episode_invalid_kind:
  assumes "ar_period state = Some p" "EpisodeKind_of (period_kind p) = Inl e"
  shows "write_episode (state, s) = Inl e"
  using assms by (simp add: write_episode_def Let_def)

lemma write_episode_result:
  assumes "write_episode (state, s) = Inr (state', s')"
  shows "ar_stats state' = ar_stats state \<and> ar_episode state' \<noteq> None"
  using assms
  by (auto simp: write_episode_def Let_def split_def split: sum.splits)

lemma update_profile_result:
  "\<exists>state' s'. update_profile (state, s) = Inr (state', s') \<and>
     ar_stats state' = ar_stats state \<and> ar_episode state' = ar_episode state"
  by (simp add: update_profile_def Let_def split_def)

lemma build_summary_result:
  "\<exists>state'. build_summary (state, s) = Inr (state', s) \<and>
     ar_stats state' = ar_stats state \<and> ar_episode state' = ar_episode state"
  by (simp add: build_summary_def Let_def)

lemma archivist_graph_invalid_kind:
  assumes "load_period_data (state, s) = Inr (state1, s1)"
    and "EpisodeKind_of (ReflectPeriodKind_value (rp_kind (ar_request state))) = Inl e"
  shows "archivist_graph fmt1 (state, s) = Inl e"
proof -
  from load_period_data_period[OF assms(1)] obtain p where
    p: "ar_period state1 = Some p"
       "period_kind p = ReflectPeriodKind_value (rp_kind (ar_request state))"
    by blast
  from compute_stats_result[OF p(1)] obtain stats where
    c: "compute_stats (state1, s1) = Inr (state1\<lparr>ar_stats := Some stats\<rparr>, s1)"
    by blast
  obtain state3 where
    i: "identify_patterns fmt1 (state1\<lparr>ar_stats := Some stats\<rparr>, s1) = Inr (state3, s1)"
       "ar_period state3 = ar_period (state1\<lparr>ar_stats := Some stats\<rparr>)"
    using identify_patterns_result by blast
  have "ar_period state3 = Some p" using i(2) p(1) by simp
  then have w: "write_episode (state3, s1) = Inl e"
    using write_episode_invalid_kind assms(2) p(2) by simp
  show ?thesis
    by (simp add: archivist_graph_def then_node_def assms(1) c i(1) w)
qed

text \<open>
  C1. For every \<^verbatim>\<open>ReflectPeriodRequest\<close>, of any of the four kinds,
  \<^verbatim>\<open>run_archivist\<close> is to return a complete response and never raise. The code
  raises for the kind \<^verbatim>\<open>block\<close>, on every state of the repositories and whatever
  else the request holds: the node \<^verbatim>\<open>_write_episode\<close> builds
  \<^verbatim>\<open>EpisodeKind("block")\<close>, and \<^verbatim>\<open>EpisodeKind\<close> has the members session, day,
  mission and meta only. The kind \<^verbatim>\<open>week\<close> fails the same way
  (\<open>run_archivist_week_raises\<close>).
\<close>

theorem run_archivist_block_raises:
  "run_archivist fmt1 s user_id (req\<lparr>rp_kind := RK_BLOCK\<rparr>) =
     Inl (ValueError ''block is not a valid EpisodeKind'')"
proof -
  let ?st = "\<lparr>ar_user_id = user_id, ar_request = req\<lparr>rp_kind := RK_BLOCK\<rparr>, ar_period = None,
             ar_block = None,
             ar_mission = None, ar_period_episodes = None, ar_profile = None,
             ar_stats = None, ar_patterns = None, ar_highlights = None,
             ar_challenges = None, ar_episode = None, ar_updated_profile = None,
             ar_final_summary = None, ar_suggestions = None, ar_errors = []\<rparr>"
  obtain state1 s1 where l: "load_period_data (?st, s) = Inr (state1, s1)"
    using load_period_data_block_day[of ?st s] by auto
  have "archivist_graph fmt1 (?st, s) = Inl (ValueError ''block is not a valid EpisodeKind'')"
    by (rule archivist_graph_invalid_kind[OF l]) (simp add: EpisodeKind_of_def)
  then show ?thesis by (simp add: run_archivist_def)
qed

lemma run_archivist_week_raises:
  assumes "date_min_ordinal + 7 \<le> today s" "today s \<le> date_max_ordinal"
  shows "run_archivist fmt1 s user_id (req\<lparr>rp_kind := RK_WEEK\<rparr>) =
     Inl (ValueError ''week is not a valid EpisodeKind'')"
proof -
  let ?st = "\<lparr>ar_user_id = user_id, ar_request = req\<lparr>rp_kind := RK_WEEK\<rparr>, ar_period = None,
             ar_block = None,
             ar_mission = None, ar_period_episodes = None, ar_profile = None,
             ar_stats = None, ar_patterns = None, ar_highlights = None,
             ar_challenges = None, ar_episode = None, ar_updated_profile = None,
             ar_final_summary = None, ar_suggestions = None, ar_errors = []\<rparr>"
  obtain state1 s1 where l: "load_period_data (?st, s) = Inr (state1, s1)"
    using assms by (auto simp: load_period_data_def Let_def split_def date_add_days_def)
  have "archivist_graph fmt1 (?st, s) = Inl (ValueError ''week is not a valid EpisodeKind'')"
    by (rule archivist_graph_invalid_kind[OF l]) (simp add: EpisodeKind_of_def)
  then show ?thesis by (simp add: run_archivist_def)
qed

lemma archivist_graph_stats:
  assumes "archivist_graph fmt1 (state, s) = Inr (final_state, s')"
  shows "\<exists>stats. ar_stats final_state = Some stats \<and>
           st_completion_rate stats =
             (if 0 < st_blocks_completed stats
              then Some (min 1 (of_int (st_blocks_completed stats) / 5)) else None)"
proof -
  from assms obtain state1 s1 where l: "load_period_data (state, s) = Inr (state1, s1)"
    by (auto simp: archivist_graph_def then_node_def split: sum.splits)
  from load_period_data_period[OF l] obtain p where p: "ar_period state1 = Some p" by blast
  from compute_stats_result[OF p] obtain stats where
    c: "compute_stats (state1, s1) = Inr (state1\<lparr>ar_stats := Some stats\<rparr>, s1)"
    and r: "st_completion_rate stats =
             (if 0 < st_blocks_completed stats
              then Some (min 1 (of_int (st_blocks_completed stats) / 5)) else None)"
    by blast
  obtain state3 where
    i: "identify_patterns fmt1 (state1\<lparr>ar_stats := Some stats\<rparr>, s1) = Inr (state3, s1)"
       "ar_stats state3 = ar_stats (state1\<lparr>ar_stats := Some stats\<rparr>)"
    using identify_patterns_result by blast
  from assms obtain state4 s4 where w: "write_episode (state3, s1) = Inr (state4, s4)"
    by (auto simp: archivist_graph_def then_node_def l c i(1) split: sum.splits)
  obtain state5 s5 where u: "update_profile (state4, s4) = Inr (state5, s5)"
    "ar_stats state5 = ar_stats state4"
    using update_profile_result by blast
  obtain state6 where b: "build_summary (state5, s5) = Inr (state6, s5)"
    "ar_stats state6 = ar_stats state5"
    using build_summary_result by blast
  have "final_state = state6"
    using assms by (simp add: archivist_graph_def then_node_def l c i(1) w u(1) b(1))
  then have "ar_stats final_state = Some stats"
    using b(2) u(2) write_episode_result[OF w] i(2) by simp
  then show ?thesis using r by blast
qed

text \<open>
  C8, as amended. Whenever an archivist run returns a response, its
  \<^verbatim>\<open>completion_rate\<close> is \<open>min 1 (blocks_completed / 5)\<close> when
  \<^verbatim>\<open>blocks_completed\<close> is positive, and is absent (\<^verbatim>\<open>None\<close>) when
  \<^verbatim>\<open>blocks_completed\<close> is 0: \<^verbatim>\<open>_compute_stats\<close> adds the rate only under the
  guard \<^verbatim>\<open>stats["blocks_completed"] > 0\<close>.
\<close>

theorem run_archivist_completion_rate:
  assumes "run_archivist fmt1 s user_id req = Inr (resp, s')"
  shows "rf_completion_rate resp =
           (if 0 < rf_blocks_completed resp
            then Some (min 1 (of_int (rf_blocks_completed resp) / 5)) else None)"
proof -
  let ?st = "\<lparr>ar_user_id = user_id, ar_request = req, ar_period = None,
             ar_block = None,
             ar_mission = None, ar_period_episodes = None, ar_profile = None,
             ar_stats = None, ar_patterns = None, ar_highlights = None,
             ar_challenges = None, ar_episode = None, ar_updated_profile = None,
             ar_final_summary = None, ar_suggestions = None, ar_errors = []\<rparr>"
  from assms obtain final_state where
    g: "archivist_graph fmt1 (?st, s) = Inr (final_state, s')"
    by (auto simp: run_archivist_def Let_def split: sum.splits)
  from archivist_graph_stats[OF g] obtain stats where
    st: "ar_stats final_state = Some stats"
    "st_completion_rate stats =
             (if 0 < st_blocks_completed stats
              then Some (min 1 (of_int (st_blocks_completed stats) / 5)) else None)"
    by blast
  from assms g st(1) have "rf_completion_rate resp = st_completion_rate stats"
    "rf_blocks_completed resp = st_blocks_completed stats"
    by (auto simp: run_archivist_def Let_def ReflectPeriodResponse_validate_def split: sum.splits)
  then show ?thesis using st(2) by simp
qed


text \<open>
  The run of scenario B returns a response, with one completed block and the rate 1/5.
\<close>

theorem run_archivist_completion_rate_witness:
  "response_rate (run_archivist no_format scenario_b_sys ''u1'' (reflect_request RK_DAY)) =
     Some (1, Some (1 / 5))"
proof -
  have e: "map_option fst
      (response_rate (run_archivist no_format scenario_b_sys ''u1'' (reflect_request RK_DAY))) =
      Some 1"
    by code_simp
  then obtain resp s' where
    r: "run_archivist no_format scenario_b_sys ''u1'' (reflect_request RK_DAY) = Inr (resp, s')"
    and b: "rf_blocks_completed resp = 1"
    by (cases "run_archivist no_format scenario_b_sys ''u1'' (reflect_request RK_DAY)")
      (auto simp: response_rate_def)
  from run_archivist_completion_rate[OF r] b show ?thesis
    by (simp add: response_rate_def r)
qed

text \<open>
  C8 as stated fails on fresh repositories: the response of a day reflection reports 0
  completed blocks and no completion rate, where the claim has \<open>min 1 (0 / 5) = 0\<close>.
\<close>

theorem completion_rate_zero_blocks_counterexample:
  "response_rate (run_archivist no_format empty_sys ''u1'' (reflect_request RK_DAY)) =
     Some (0, None)"
  by code_simp

subsection \<open>Period statistics\<close>

lemma stats_loop_eq:
  "stats_loop eps a1 a2 a3 fs es =
     (a1 + sum_list (map focused_minutes eps),
      a2 + sum_list (map (\<lambda>e. case e_time_leaked_minutes e of None \<Rightarrow> 0 | Some n \<Rightarrow> n) eps),
      a3 + int (length (filter (\<lambda>e. e_kind e = EK_SESSION) eps)),
      fs @ concat (map (\<lambda>e. append_if_truthy [] (e_focus_score e)) eps),
      es @ concat (map (\<lambda>e. append_if_truthy [] (e_energy_score e)) eps))"
proof (induction eps arbitrary: a1 a2 a3 fs es)
  case Nil
  then show ?case by simp
next
  case (Cons ep eps)
  show ?case
    by (simp add: Cons.IH add_if_truthy_def append_if_truthy_def focused_minutes_def
        split: option.splits)
qed

lemma sum_list_map_insort_key:
  "sum_list (map g (insort_key f x xs)) = g x + sum_list (map (g :: 'a \<Rightarrow> int) xs)"
  by (induction xs) simp_all

lemma sum_list_map_sort_key:
  "sum_list (map g (sort_key f xs)) = sum_list (map (g :: 'a \<Rightarrow> int) xs)"
  by (induction xs) (simp_all add: sum_list_map_insort_key)

lemma length_filter_sort_key:
  "length (filter P (sort_key f xs)) = length (filter P xs)"
  by (simp add: filter_sort)

lemma get_episodes_for_period_eq:
  "get_episodes_for_period s user_id start_date end_date None =
     take 50 (sort_key (\<lambda>e. - e_created_at e) (in_range_episodes s user_id start_date end_date))"
  by (simp add: get_episodes_for_period_def episodes_repo_list_for_user_def
      in_range_episodes_def Let_def conj_commute conj_left_commute cong: filter_cong)

lemma compute_period_stats_over_loaded:
  "get_episodes_for_period s user_id start_date end_date None =
     take 50 (sort_key (\<lambda>e. - e_created_at e)
                (in_range_episodes s user_id start_date end_date)) \<and>
   st_blocks_completed (compute_period_stats s user_id start_date end_date) =
     int (length (filter (\<lambda>e. e_kind e = EK_SESSION)
                    (get_episodes_for_period s user_id start_date end_date None))) \<and>
   st_total_focused_minutes (compute_period_stats s user_id start_date end_date) =
     sum_list (map focused_minutes
                 (get_episodes_for_period s user_id start_date end_date None)) \<and>
   (length (in_range_episodes s user_id start_date end_date) \<le> 50 \<longrightarrow>
      st_blocks_completed (compute_period_stats s user_id start_date end_date) =
        int (length (filter (\<lambda>e. e_kind e = EK_SESSION)
                       (in_range_episodes s user_id start_date end_date))) \<and>
      st_total_focused_minutes (compute_period_stats s user_id start_date end_date) =
        sum_list (map focused_minutes (in_range_episodes s user_id start_date end_date)))"
proof -
  let ?loaded = "get_episodes_for_period s user_id start_date end_date None"
  let ?range = "in_range_episodes s user_id start_date end_date"
  have l: "?loaded = take 50 (sort_key (\<lambda>e. - e_created_at e) ?range)"
    by (rule get_episodes_for_period_eq)
  have b: "st_blocks_completed (compute_period_stats s user_id start_date end_date) =
      int (length (filter (\<lambda>e. e_kind e = EK_SESSION) ?loaded))"
    by (simp add: compute_period_stats_def stats_loop_eq)
  have f: "st_total_focused_minutes (compute_period_stats s user_id start_date end_date) =
      sum_list (map focused_minutes ?loaded)"
    by (simp add: compute_period_stats_def stats_loop_eq)
  have all: "?loaded = sort_key (\<lambda>e. - e_created_at e) ?range" if "length ?range \<le> 50"
    using that by (simp add: l)
  show ?thesis
    using l b f all by (auto simp: sum_list_map_sort_key length_filter_sort_key)
qed

lemma scenario_b_stats:
  "length (in_range_episodes scenario_b_sys ''u1'' 738887 738887) = 2 \<and>
   st_blocks_completed (compute_period_stats scenario_b_sys ''u1'' 738887 738887) = 1 \<and>
   st_total_focused_minutes (compute_period_stats scenario_b_sys ''u1'' 738887 738887) = 30"
  by code_simp

text \<open>
  C5. The period statistics are to count the sessions and sum the focused minutes of the
  episodes in the range. \<^verbatim>\<open>compute_period_stats\<close> does so over the episodes that
  \<^verbatim>\<open>get_episodes_for_period\<close> loads (\<open>compute_period_stats_over_loaded\<close>), and
  that tool, documented as getting the episodes within a date range, calls the
  repository's \<^verbatim>\<open>list_for_user\<close> without a \<^verbatim>\<open>limit\<close>, so the repository cuts
  the list to its default of 50. For a user with 51 session episodes of one focused
  minute each in today's range, the in-range episodes sum to 51 minutes and 51 sessions;
  the statistics report 50 and 50.
\<close>

theorem compute_period_stats_misses_episodes:
  "length (in_range_episodes many_episodes_sys ''u1'' 738887 738887) = 51 \<and>
   sum_list (map focused_minutes (in_range_episodes many_episodes_sys ''u1'' 738887 738887)) = 51 \<and>
   st_total_focused_minutes (compute_period_stats many_episodes_sys ''u1'' 738887 738887) = 50 \<and>
   int (length (filter (\<lambda>e. e_kind e = EK_SESSION)
          (in_range_episodes many_episodes_sys ''u1'' 738887 738887))) = 51 \<and>
   st_blocks_completed (compute_period_stats many_episodes_sys ''u1'' 738887 738887) = 50"
  by code_simp

lemma run_archivist_misses_episodes:
  "response_rate (run_archivist no_format many_episodes_sys ''u1'' (reflect_request RK_DAY)) =
     Some (50, Some 1)"
  by code_simp

subsection \<open>Block proposal\<close>

lemma combine_hour_div:
  assumes "0 \<le> h" "h < 24"
  shows "((d - 1) * 86400000000 + h * 3600000000) div 86400000000 = d - (1::int)"
proof -
  have a: "0 \<le> h * 3600000000" "h * 3600000000 < 86400000000" using assms by simp_all
  have "((d - 1) * 86400000000 + h * 3600000000) div 86400000000 =
        (d - 1) + (h * 3600000000) div 86400000000"
    by (rule div_mult_self3) simp
  also have "(h * 3600000000) div 86400000000 = 0"
    using a by (rule div_pos_pos_trivial)
  finally show ?thesis by simp
qed

lemma datetime_date_combine_hour:
  assumes "0 \<le> h" "h < 24"
  shows "datetime_date (datetime_combine_hour d h) = d"
  unfolding datetime_date_def datetime_combine_hour_def micros_per_day_def
    micros_per_hour_def combine_hour_div[OF assms]
  by simp

lemma combine_nine_time:
  "datetime_hour (datetime_combine_hour d 9) = 9"
  "datetime_minute (datetime_combine_hour d 9) = 0"
  "datetime_second (datetime_combine_hour d 9) = 0"
  "datetime_microsecond (datetime_combine_hour d 9) = 0"
proof -
  have h: "datetime_combine_hour d 9 = (d - 1) * 86400000000 + 32400000000"
    by (simp add: datetime_combine_hour_def micros_per_day_def micros_per_hour_def)
  have "((d - 1) * 86400000000 + 32400000000) mod 86400000000 =
        32400000000 mod (86400000000::int)"
    by (rule mod_mult_self3)
  then have m: "((d - 1) * 86400000000 + 32400000000) mod 86400000000 = 32400000000"
    by simp
  show "datetime_hour (datetime_combine_hour d 9) = 9"
    unfolding datetime_hour_def h m by simp
  have "datetime_combine_hour d 9 = ((d - 1) * 24 + 9) * 3600000000"
    unfolding h by simp
  then show "datetime_minute (datetime_combine_hour d 9) = 0"
    unfolding datetime_minute_def by simp
  have "datetime_combine_hour d 9 = ((d - 1) * 1440 + 540) * 60000000"
    unfolding h by simp
  then show "datetime_second (datetime_combine_hour d 9) = 0"
    unfolding datetime_second_def by simp
  have "datetime_combine_hour d 9 = ((d - 1) * 86400 + 32400) * 1000000"
    unfolding h by simp
  then show "datetime_microsecond (datetime_combine_hour d 9) = 0"
    unfolding datetime_microsecond_def by simp
qed

lemma Block_validate_fields [simp]:
  "b_scheduled_start (Block_validate b) = b_scheduled_start b"
  "b_planned_duration_minutes (Block_validate b) = b_planned_duration_minutes b"
  "b_sequence_index (Block_validate b) = b_sequence_index b"
  "b_status (Block_validate b) = b_status b"
  by (simp_all add: Block_validate_def)

lemma propose_step_cases:
  assumes "propose_step mission mission_id start duration i (blks0, s0) = Inr (blks, s')"
  shows "(date_weekday (start + int i) \<in> set (days_off (m_constraints mission)) \<and>
          blks = blks0 \<and> s' = s0) \<or>
         (date_weekday (start + int i) \<notin> set (days_off (m_constraints mission)) \<and>
          (\<exists>b. blks = blks0 @ [b] \<and>
               b_scheduled_start b = Some (Naive (datetime_combine_hour (start + int i) 9)) \<and>
               b_planned_duration_minutes b = Some duration \<and>
               b_sequence_index b = Some (int (length blks0))))"
proof -
  have d: "date_add_days start (int i) = Inr (start + int i)"
    using assms
    by (cases "date_min_ordinal \<le> start + int i \<and> start + int i \<le> date_max_ordinal")
      (simp_all add: propose_step_def date_add_days_def)
  show ?thesis
  proof (cases "date_weekday (start + int i) \<in> set (days_off (m_constraints mission))")
    case True
    then have "days_off (m_constraints mission) \<noteq> []" by auto
    with True assms d show ?thesis by (simp add: propose_step_def)
  next
    case False
    with assms d show ?thesis by (auto simp: propose_step_def Let_def split_def)
  qed
qed

lemma propose_loop_invariant:
  assumes "for_loop (propose_step mission mission_id start duration) js (blks0, s0) = Inr (blks, s')"
  shows "map b_scheduled_start blks =
           map b_scheduled_start blks0 @
           map (\<lambda>d. Some (Naive (datetime_combine_hour d 9)))
             (filter (\<lambda>d. date_weekday d \<notin> set (days_off (m_constraints mission)))
                (map (\<lambda>i. start + int i) js)) \<and>
         map b_planned_duration_minutes blks =
           map b_planned_duration_minutes blks0 @
           replicate (length blks - length blks0) (Some duration) \<and>
         map b_sequence_index blks =
           map b_sequence_index blks0 @ map (\<lambda>k. Some (int k)) [length blks0..<length blks] \<and>
         length blks0 \<le> length blks"
  using assms
proof (induction js arbitrary: blks0 s0)
  case Nil
  then show ?case by simp
next
  case (Cons j js)
  from Cons.prems obtain blks1 s1 where
    step: "propose_step mission mission_id start duration j (blks0, s0) = Inr (blks1, s1)"
    and rest: "for_loop (propose_step mission mission_id start duration) js (blks1, s1) =
               Inr (blks, s')"
    by (auto split: sum.splits)
  note ih = Cons.IH[OF rest]
  from propose_step_cases[OF step] show ?case
  proof
    assume "date_weekday (start + int j) \<in> set (days_off (m_constraints mission)) \<and>
          blks1 = blks0 \<and> s1 = s0"
    then show ?thesis using ih by simp
  next
    assume "date_weekday (start + int j) \<notin> set (days_off (m_constraints mission)) \<and>
          (\<exists>b. blks1 = blks0 @ [b] \<and>
               b_scheduled_start b = Some (Naive (datetime_combine_hour (start + int j) 9)) \<and>
               b_planned_duration_minutes b = Some duration \<and>
               b_sequence_index b = Some (int (length blks0)))"
    then obtain b where ok: "date_weekday (start + int j) \<notin> set (days_off (m_constraints mission))"
      and b: "blks1 = blks0 @ [b]"
        "b_scheduled_start b = Some (Naive (datetime_combine_hour (start + int j) 9))"
        "b_planned_duration_minutes b = Some duration"
        "b_sequence_index b = Some (int (length blks0))"
      by blast
    from ih b have len: "Suc (length blks0) \<le> length blks" by simp
    have r: "Some duration # replicate (length blks - Suc (length blks0)) (Some duration) =
             replicate (length blks - length blks0) (Some duration)"
      using len by (metis Suc_diff_le diff_Suc_Suc replicate_Suc)
    have u: "Some (int (length blks0)) # map (\<lambda>k. Some (int k)) [Suc (length blks0)..<length blks] =
             map (\<lambda>k. Some (int k)) [length blks0..<length blks]"
      using len by (simp add: upt_conv_Cons)
    show ?thesis using ih ok b r u len by simp
  qed
qed

lemma propose_loop_total:
  assumes "\<forall>j\<in>set js. date_min_ordinal \<le> start + int j \<and> start + int j \<le> date_max_ordinal"
  shows "\<exists>blks s'. for_loop (propose_step mission mission_id start duration) js acc = Inr (blks, s')"
  using assms
proof (induction js arbitrary: acc)
  case Nil
  then show ?case by (cases acc) simp
next
  case (Cons j js)
  have "\<exists>acc'. propose_step mission mission_id start duration j acc = Inr acc'"
    using Cons.prems by (simp add: propose_step_def date_add_days_def Let_def split_def)
  then obtain acc' where s: "propose_step mission mission_id start duration j acc = Inr acc'"
    by blast
  from Cons.IH[of acc'] Cons.prems show ?case by (simp add: s)
qed

lemma propose_blocks_for_mission_found:
  assumes "missions_repo_get s mission_id = Some mission"
  shows "propose_blocks_for_mission s mission_id start_date num_blocks dflt =
           for_loop
             (propose_step mission mission_id
                (case start_date of None \<Rightarrow> today s | Some d \<Rightarrow> d)
                (case preferred_block_lengths (m_preferences mission) of
                   None \<Rightarrow> dflt | Some [] \<Rightarrow> dflt | Some (l # ls) \<Rightarrow> l))
             [0..<nat num_blocks] ([], s)"
  using assms by (simp add: propose_blocks_for_mission_def Let_def)

lemma propose_blocks_for_mission_returns:
  assumes "missions_repo_get s mission_id = Some mission"
    and "propose_blocks_for_mission s mission_id start_date num_blocks 25 = Inr (blks, s')"
  shows "length blks \<le> nat num_blocks \<and>
         (\<forall>b\<in>set blks. \<forall>t. b_scheduled_start b = Some t \<longrightarrow>
            date_weekday (timestamp_date t) \<notin> set (days_off (m_constraints mission))) \<and>
         map b_scheduled_start blks =
           map (\<lambda>d. Some (Naive (datetime_combine_hour d 9)))
             (filter (\<lambda>d. date_weekday d \<notin> set (days_off (m_constraints mission)))
                (candidate_days (case start_date of None \<Rightarrow> today s | Some d \<Rightarrow> d)
                   num_blocks)) \<and>
         (\<forall>b\<in>set blks. b_planned_duration_minutes b = Some (preferred_duration mission)) \<and>
         map b_sequence_index blks = map (\<lambda>k. Some (int k)) [0..<length blks]"
proof -
  let ?start = "case start_date of None \<Rightarrow> today s | Some d \<Rightarrow> d"
  let ?ok = "\<lambda>d. date_weekday d \<notin> set (days_off (m_constraints mission))"
  have d: "(case preferred_block_lengths (m_preferences mission) of
                   None \<Rightarrow> 25 | Some [] \<Rightarrow> 25 | Some (l # ls) \<Rightarrow> l) = preferred_duration mission"
    by (simp add: preferred_duration_def)
  from assms have loop:
    "for_loop (propose_step mission mission_id ?start (preferred_duration mission))
       [0..<nat num_blocks] ([], s) = Inr (blks, s')"
    by (simp add: propose_blocks_for_mission_found d)
  note inv = propose_loop_invariant[OF loop]
  from inv have starts: "map b_scheduled_start blks =
      map (\<lambda>d. Some (Naive (datetime_combine_hour d 9))) (filter ?ok (candidate_days ?start num_blocks))"
    by (simp add: candidate_days_def)
  have "length blks = length (filter ?ok (candidate_days ?start num_blocks))"
    using arg_cong[OF starts, of length] by simp
  also have "\<dots> \<le> length (candidate_days ?start num_blocks)" by (rule length_filter_le)
  finally have len: "length blks \<le> nat num_blocks" by (simp add: candidate_days_def)
  have days: "\<forall>b\<in>set blks. \<forall>t. b_scheduled_start b = Some t \<longrightarrow> ?ok (timestamp_date t)"
  proof (intro ballI allI impI)
    fix b t assume "b \<in> set blks" "b_scheduled_start b = Some t"
    then have "Some t \<in> set (map b_scheduled_start blks)" by force
    then obtain d where "?ok d" "t = Naive (datetime_combine_hour d 9)"
      unfolding starts by auto
    then show "?ok (timestamp_date t)"
      by (simp add: datetime_date_combine_hour timestamp_date_def wall_clock_def)
  qed
  have durs: "\<forall>b\<in>set blks. b_planned_duration_minutes b = Some (preferred_duration mission)"
  proof
    fix b assume "b \<in> set blks"
    then have "b_planned_duration_minutes b \<in> set (map b_planned_duration_minutes blks)"
      by simp
    then show "b_planned_duration_minutes b = Some (preferred_duration mission)"
      using inv by auto
  qed
  from inv have seqs: "map b_sequence_index blks = map (\<lambda>k. Some (int k)) [0..<length blks]"
    by simp
  show ?thesis using len days starts durs seqs by blast
qed

text \<open>
  C4. For every mission and every requested block count, the list that
  \<^verbatim>\<open>propose_blocks_for_mission\<close> returns (with the default duration of 25 minutes,
  as the planner calls it) has at most the requested count of blocks (a count below
  zero requests none); no proposed block's calendar day falls on a weekday listed in the
  mission's \<^verbatim>\<open>days_off\<close>; the days of the blocks are the candidate days that are not
  days off, in order, where the candidate days are the start day and then each time the
  next calendar day; every block starts at 9:00:00 sharp by the wall clock (a naive
  timestamp); every block lasts the mission's first preferred block length, or 25
  minutes when no preference is set; and the blocks are numbered from 0.
\<close>

theorem propose_blocks_for_mission_spec:
  assumes "missions_repo_get s mission_id = Some mission"
    and "propose_blocks_for_mission s mission_id start_date num_blocks 25 = Inr (blks, s')"
  shows "length blks \<le> nat num_blocks \<and>
         (\<forall>b\<in>set blks. \<forall>t. b_scheduled_start b = Some t \<longrightarrow>
            date_weekday (timestamp_date t) \<notin> set (days_off (m_constraints mission))) \<and>
         map (\<lambda>b. map_option timestamp_date (b_scheduled_start b)) blks =
           map Some
             (filter (\<lambda>d. date_weekday d \<notin> set (days_off (m_constraints mission)))
                (candidate_days (case start_date of None \<Rightarrow> today s | Some d \<Rightarrow> d)
                   num_blocks)) \<and>
         (\<forall>b\<in>set blks. start_time b = Some (False, 9, 0, 0, 0)) \<and>
         (\<forall>b\<in>set blks. b_planned_duration_minutes b = Some (preferred_duration mission)) \<and>
         map b_sequence_index blks = map (\<lambda>k. Some (int k)) [0..<length blks]"
proof -
  let ?ok = "\<lambda>d. date_weekday d \<notin> set (days_off (m_constraints mission))"
  let ?days = "filter ?ok (candidate_days (case start_date of None \<Rightarrow> today s | Some d \<Rightarrow> d)
                 num_blocks)"
  note r = propose_blocks_for_mission_returns[OF assms]
  from r have starts:
    "map b_scheduled_start blks = map (\<lambda>d. Some (Naive (datetime_combine_hour d 9))) ?days"
    by blast
  have "map (\<lambda>b. map_option timestamp_date (b_scheduled_start b)) blks =
        map (map_option timestamp_date) (map b_scheduled_start blks)"
    by simp
  also have "\<dots> = map Some ?days"
    unfolding starts
    by (simp add: timestamp_date_def wall_clock_def datetime_date_combine_hour)
  finally have days: "map (\<lambda>b. map_option timestamp_date (b_scheduled_start b)) blks =
      map Some ?days" .
  have nine: "\<forall>b\<in>set blks. start_time b = Some (False, 9, 0, 0, 0)"
  proof
    fix b assume "b \<in> set blks"
    then have "b_scheduled_start b \<in> set (map b_scheduled_start blks)" by simp
    then obtain d where "b_scheduled_start b = Some (Naive (datetime_combine_hour d 9))"
      unfolding starts by auto
    then show "start_time b = Some (False, 9, 0, 0, 0)"
      by (simp add: start_time_def is_aware_def wall_clock_def combine_nine_time)
  qed
  show ?thesis using r days nine by blast
qed

text \<open>
  Seven blocks requested from a Tuesday for a mission that keeps the weekend free: five
  blocks of 40 minutes, at nine on Tuesday to Friday and on the next Monday.
\<close>

theorem propose_blocks_for_mission_spec_witness:
  "missions_repo_get weekend_off_sys ''m1'' \<noteq> None \<and>
   proposal_view (propose_blocks_for_mission weekend_off_sys ''m1'' None 7 25) =
     Some [(Some 0, Some 738887, Some (False, 9, 0, 0, 0), Some 40),
           (Some 1, Some 738888, Some (False, 9, 0, 0, 0), Some 40),
           (Some 2, Some 738889, Some (False, 9, 0, 0, 0), Some 40),
           (Some 3, Some 738890, Some (False, 9, 0, 0, 0), Some 40),
           (Some 4, Some 738893, Some (False, 9, 0, 0, 0), Some 40)] \<and>
   map date_weekday [738887, 738888, 738889, 738890, 738891, 738892, 738893] =
     [1, 2, 3, 4, 5, 6, 0] \<and>
   (case propose_blocks_for_mission weekend_off_sys ''m1'' None 7 25 of
      Inl e \<Rightarrow> False
    | Inr (blks, s') \<Rightarrow>
        length blks \<le> nat 7 \<and> list_all (\<lambda>b. start_time b = Some (False, 9, 0, 0, 0)) blks)"
proof -
  obtain mission where g: "missions_repo_get weekend_off_sys ''m1'' = Some mission"
    by (simp add: missions_repo_get_def weekend_off_sys_def empty_sys_def)
  have v: "proposal_view (propose_blocks_for_mission weekend_off_sys ''m1'' None 7 25) =
     Some [(Some 0, Some 738887, Some (False, 9, 0, 0, 0), Some 40),
           (Some 1, Some 738888, Some (False, 9, 0, 0, 0), Some 40),
           (Some 2, Some 738889, Some (False, 9, 0, 0, 0), Some 40),
           (Some 3, Some 738890, Some (False, 9, 0, 0, 0), Some 40),
           (Some 4, Some 738893, Some (False, 9, 0, 0, 0), Some 40)]"
    by code_simp
  then obtain blks s' where
    r: "propose_blocks_for_mission weekend_off_sys ''m1'' None 7 25 = Inr (blks, s')"
    by (cases "propose_blocks_for_mission weekend_off_sys ''m1'' None 7 25")
      (auto simp: proposal_view_def)
  have w: "map date_weekday [738887, 738888, 738889, 738890, 738891, 738892, 738893] =
     [1, 2, 3, 4, 5, 6, 0]"
    by (simp add: date_weekday_def)
  from propose_blocks_for_mission_spec[OF g r]
  have "length blks \<le> nat 7" "\<forall>b\<in>set blks. start_time b = Some (False, 9, 0, 0, 0)"
    by blast+
  then show ?thesis using g v w r by (simp add: list_all_iff)
qed

subsection \<open>Planner\<close>

lemma create_mission_result:
  assumes "create_mission s user_id title description kind priority deadline planned est
             constraints preferences tags = (mission, s')"
  shows "missions_repo_get s' (m_id mission) = Some mission"
    and "today s' = today s"
    and "m_title mission = strip title"
    and "m_kind mission = kind"
    and "m_constraints mission =
           (case constraints of None \<Rightarrow> MissionConstraints_default | Some c \<Rightarrow> c)"
    and "m_preferences mission =
           (case preferences of None \<Rightarrow> MissionPreferences_default | Some p \<Rightarrow> p)"
  using assms
  by (auto simp: create_mission_def Let_def split_def new_id_def missions_repo_get_def
      missions_repo_create_def semantic_add_mission_def Mission_validate_def update_conv'
      split: option.splits)

lemma scenario_a_title:
  "strip (take 100 (pm_raw_input scenario_a_request)) =
     ''organic chem final monday, cs project wednesday''"
  by code_simp

lemma to_proposed_block_fields:
  "pb_sequence_index (to_proposed_block b) =
     (case b_sequence_index b of None \<Rightarrow> 0 | Some i \<Rightarrow> i)"
  "pb_suggested_duration_minutes (to_proposed_block b) =
     (case b_planned_duration_minutes b of None \<Rightarrow> 25 | Some d \<Rightarrow> if d \<noteq> 0 then d else 25)"
  by (simp_all add: to_proposed_block_def ProposedBlock_validate_def)

lemma ProposedBlock_validate_fields [simp]:
  "pb_sequence_index (ProposedBlock_validate b) = pb_sequence_index b"
  "pb_suggested_duration_minutes (ProposedBlock_validate b) = pb_suggested_duration_minutes b"
  by (simp_all add: ProposedBlock_validate_def)

lemma default_mission_proposal:
  assumes get: "missions_repo_get s mission_id = Some mission"
    and c: "days_off (m_constraints mission) = []"
    and p: "preferred_block_lengths (m_preferences mission) = None"
    and lo: "date_min_ordinal \<le> today s" and hi: "today s + 4 \<le> date_max_ordinal"
  shows "\<exists>blks s'. propose_blocks_for_mission s mission_id None 5 25 = Inr (blks, s') \<and>
           map (pb_sequence_index \<circ> to_proposed_block) blks = [0, 1, 2, 3, 4] \<and>
           map (pb_suggested_duration_minutes \<circ> to_proposed_block) blks = [25, 25, 25, 25, 25]"
proof -
  have "\<forall>j\<in>set [0..<nat 5]. date_min_ordinal \<le> today s + int j \<and>
          today s + int j \<le> date_max_ordinal"
    using lo hi by auto
  from propose_loop_total[OF this, of mission mission_id 25 "([], s)"]
  obtain blks s' where
    "for_loop (propose_step mission mission_id (today s) 25) [0..<nat 5] ([], s) =
       Inr (blks, s')"
    by blast
  then have r: "propose_blocks_for_mission s mission_id None 5 25 = Inr (blks, s')"
    by (simp add: propose_blocks_for_mission_found[OF get] p)
  note spec = propose_blocks_for_mission_returns[OF get r]
  have starts: "map b_scheduled_start blks =
      map (\<lambda>d. Some (Naive (datetime_combine_hour d 9))) (candidate_days (today s) 5)"
    using spec by (simp add: c)
  have "length blks = length (candidate_days (today s) 5)"
    using arg_cong[OF starts, of length] by simp
  then have len: "length blks = 5" by (simp add: candidate_days_def)
  have seqs: "map b_sequence_index blks = map (\<lambda>k. Some (int k)) [0..<5]"
    using spec len by simp
  have durs: "\<forall>b\<in>set blks. b_planned_duration_minutes b = Some 25"
    using spec by (simp add: preferred_duration_def p)
  have s1: "map (pb_sequence_index \<circ> to_proposed_block) blks =
      map (\<lambda>x. case x of None \<Rightarrow> 0 | Some i \<Rightarrow> i) (map b_sequence_index blks)"
    by (simp add: to_proposed_block_fields comp_def)
  have "[0..<5] = [0, 1, 2, 3, 4::nat]" by (simp add: upt_rec)
  then have a: "map (pb_sequence_index \<circ> to_proposed_block) blks = [0, 1, 2, 3, 4]"
    unfolding s1 seqs by simp
  have "map (pb_suggested_duration_minutes \<circ> to_proposed_block) blks =
      map (\<lambda>b. 25) blks"
    using durs by (simp add: to_proposed_block_fields)
  also have "\<dots> = replicate (length blks) 25" by (simp add: map_replicate_const)
  finally have b: "map (pb_suggested_duration_minutes \<circ> to_proposed_block) blks =
      [25, 25, 25, 25, 25]"
    by (simp add: len numeral_eq_Suc)
  show ?thesis using a b by (simp add: r)
qed

text \<open>
  C9. Scenario A: for the raw input \<^verbatim>\<open>organic chem final monday, cs project
  wednesday\<close> with no kind, deadline, constraints or preferences, the planner's response
  has the raw input, cut to 100 characters and stripped, as the mission's title (here the
  whole input), the kind \<^verbatim>\<open>other\<close>, and exactly five proposed blocks with the
  sequence indices 0 to 4 and 25 minutes each. This holds on every state of the
  repositories, on every day but the last four of the year 9999, where the fifth candidate
  day is past \<^verbatim>\<open>date.max\<close>.
\<close>

theorem run_planner_scenario_a:
  assumes "date_min_ordinal \<le> today s" and "today s + 4 \<le> date_max_ordinal"
  shows "planner_view (run_planner fmt1 fmt_date s user_id scenario_a_request) =
           Some (''organic chem final monday, cs project wednesday'', MK_OTHER,
                 [0, 1, 2, 3, 4], [25, 25, 25, 25, 25]) \<and>
         strip (take 100 (pm_raw_input scenario_a_request)) =
           ''organic chem final monday, cs project wednesday''"
proof -
  let ?st0 = "\<lparr>pl_user_id = user_id, pl_mission_id = None, pl_request = scenario_a_request,
             pl_parsed_input = None, pl_similar_missions = None, pl_history_note = None,
             pl_mission = None, pl_proposed_blocks = None, pl_summary = None,
             pl_rationale = None, pl_similar_missions_note = None, pl_scratchpad = [],
             pl_errors = []\<rparr>"
  obtain st1 where p1: "parse_input (?st0, s) = Inr (st1, s)"
    and f1: "pl_parsed_input st1 =
      Some \<lparr>parsed_title = take 100 (pm_raw_input scenario_a_request),
            parsed_description = Some (pm_raw_input scenario_a_request),
            parsed_kind = MK_OTHER, parsed_deadline = None, parsed_estimated_hours = None,
            parsed_constraints = None, parsed_preferences = None\<rparr>"
      "pl_user_id st1 = user_id" "pl_errors st1 = []"
    by (simp add: parse_input_def Let_def scenario_a_request_def)
  obtain st2 where p2: "check_history (st1, s) = Inr (st2, s)"
    and f2: "pl_parsed_input st2 = pl_parsed_input st1" "pl_user_id st2 = user_id"
      "pl_errors st2 = []"
    using f1 by (simp add: check_history_def Let_def)
  obtain mission s3 where cm: "create_mission s user_id
      (take 100 (pm_raw_input scenario_a_request)) (Some (pm_raw_input scenario_a_request))
      MK_OTHER MP_MEDIUM None None None None None None = (mission, s3)"
    by (cases "create_mission s user_id
      (take 100 (pm_raw_input scenario_a_request)) (Some (pm_raw_input scenario_a_request))
      MK_OTHER MP_MEDIUM None None None None None None") blast
  note m = create_mission_result[OF cm]
  have p3: "build_mission (st2, s) =
      Inr (st2\<lparr>pl_mission := Some mission, pl_mission_id := Some (m_id mission)\<rparr>, s3)"
    using f1 f2 cm by (simp add: build_mission_def Let_def)
  let ?st3 = "st2\<lparr>pl_mission := Some mission, pl_mission_id := Some (m_id mission)\<rparr>"
  have "days_off (m_constraints mission) = []"
    "preferred_block_lengths (m_preferences mission) = None"
    using m by (simp_all add: MissionConstraints_default_def MissionPreferences_default_def)
  from default_mission_proposal[OF m(1) this] assms m(2)
  obtain blks s4 where
    pb: "propose_blocks_for_mission s3 (m_id mission) None 5 25 = Inr (blks, s4)"
    and q: "map (pb_sequence_index \<circ> to_proposed_block) blks = [0, 1, 2, 3, 4]"
      "map (pb_suggested_duration_minutes \<circ> to_proposed_block) blks = [25, 25, 25, 25, 25]"
    by auto
  have p4: "propose_blocks (?st3, s3) =
      Inr (?st3\<lparr>pl_proposed_blocks := Some (map to_proposed_block blks)\<rparr>, s4)"
    by (simp add: propose_blocks_def pb)
  let ?st4 = "?st3\<lparr>pl_proposed_blocks := Some (map to_proposed_block blks)\<rparr>"
  obtain st5 where p5: "summarize fmt1 fmt_date (?st4, s4) = Inr (st5, s4)"
    and f5: "pl_mission st5 = Some mission"
      "pl_proposed_blocks st5 = Some (map to_proposed_block blks)"
    by (simp add: summarize_def Let_def)
  have g: "planner_graph fmt1 fmt_date (?st0, s) = Inr (st5, s4)"
    by (simp add: planner_graph_def then_node_def p1 p2 p3 p4 p5)
  have "planner_view (run_planner fmt1 fmt_date s user_id scenario_a_request) =
      Some (m_title mission, m_kind mission,
            map (pb_sequence_index \<circ> to_proposed_block) blks,
            map (pb_suggested_duration_minutes \<circ> to_proposed_block) blks)"
    by (simp add: run_planner_def g f5 planner_view_def PlanMissionResponse_validate_def
        comp_def)
  then show ?thesis using m q scenario_a_title by simp
qed

text \<open>
  Scenario A on fresh repositories on 2024-01-02.
\<close>

theorem run_planner_scenario_a_witness:
  "date_min_ordinal \<le> today empty_sys \<and> today empty_sys + 4 \<le> date_max_ordinal \<and>
   planner_view (run_planner no_format no_date_format empty_sys ''u1'' scenario_a_request) =
     Some (''organic chem final monday, cs project wednesday'', MK_OTHER,
           [0, 1, 2, 3, 4], [25, 25, 25, 25, 25])"
proof -
  have a: "date_min_ordinal \<le> today empty_sys" "today empty_sys + 4 \<le> date_max_ordinal"
    by (simp_all add: empty_sys_def date_min_ordinal_def date_max_ordinal_def)
  from run_planner_scenario_a[OF a, of no_format no_date_format "''u1''"] a
  show ?thesis by simp
qed

subsection \<open>Coach\<close>

lemma is_aware_scheduled_key:
  assumes "b_scheduled_start b \<noteq> None"
  shows "is_aware (scheduled_key b) =
           (case b_scheduled_start b of Some (Naive w) \<Rightarrow> False | _ \<Rightarrow> True)"
    and "(\<not> is_aware (scheduled_key b)) =
           (case b_scheduled_start b of Some (Aware w off) \<Rightarrow> False | _ \<Rightarrow> True)"
  using assms
  by (auto simp: scheduled_key_def is_aware_def split: option.splits timestamp.splits)

lemma one_kind_scheduled_key:
  assumes "\<forall>b\<in>set blks. b_scheduled_start b \<noteq> None"
  shows "one_kind (map scheduled_key blks) = starts_of_one_kind blks"
proof -
  have a: "list_all is_aware (map scheduled_key blks) =
      list_all (\<lambda>b. case b_scheduled_start b of Some (Naive w) \<Rightarrow> False | _ \<Rightarrow> True) blks"
    using assms by (simp add: list_all_iff is_aware_scheduled_key(1))
  have n: "list_all (\<lambda>t. \<not> is_aware t) (map scheduled_key blks) =
      list_all (\<lambda>b. case b_scheduled_start b of Some (Aware w off) \<Rightarrow> False | _ \<Rightarrow> True) blks"
    using assms by (simp add: list_all_iff is_aware_scheduled_key(2))
  show ?thesis unfolding one_kind_def starts_of_one_kind_def a n by blast
qed

lemma get_today_blocks_eq:
  "get_today_blocks s u =
     (if starts_of_one_kind (scheduled_today s u)
      then Inr (sort_key (\<lambda>b. utc_instant (scheduled_key b)) (scheduled_today s u))
      else Inl naive_aware_error)"
proof -
  have "\<forall>b\<in>set (scheduled_today s u). b_scheduled_start b \<noteq> None"
    by (auto simp: scheduled_today_def split: option.splits)
  from one_kind_scheduled_key[OF this] show ?thesis
    by (simp add: get_today_blocks_def blocks_repo_list_for_user_date_def
        sort_by_timestamp_def scheduled_today_def)
qed

lemma get_current_block_none:
  "in_progress_blocks s u = [] \<Longrightarrow> get_current_block s u = Inr None"
  by (simp add: get_current_block_def blocks_repo_get_current_block_def in_progress_blocks_def)

lemma get_active_mission_none:
  "active_missions s u = [] \<Longrightarrow> get_active_mission s u = None"
  by (simp add: get_active_mission_def missions_repo_get_active_mission_def
      active_missions_def py_max_key_def)

lemma list_for_mission_no_blocks:
  assumes "filter (\<lambda>b. b_mission_id b = m) (map snd (blocks s)) = []"
  shows "blocks_repo_list_for_mission s m status limit = Inr []"
proof -
  have "filter (\<lambda>b. b_mission_id b = m \<and> (status = None \<or> Some (b_status b) = status))
          (map snd (blocks s)) = []"
    using assms by (auto simp: filter_empty_conv)
  then show ?thesis by (simp add: blocks_repo_list_for_mission_def)
qed

lemma get_next_planned_block_of_mission:
  assumes "truthy_str mission_id = Some m"
    and "filter (\<lambda>b. b_mission_id b = m) (map snd (blocks s)) = []"
  shows "get_next_planned_block s user_id mission_id = Inr None"
  using assms by (simp add: get_next_planned_block_def list_for_mission_no_blocks)

lemma get_next_planned_block_today:
  assumes "truthy_str mission_id = None"
    and "starts_of_one_kind (scheduled_today s user_id)"
    and "filter (\<lambda>b. b_status b = PLANNED) (scheduled_today s user_id) = []"
  shows "get_next_planned_block s user_id mission_id = Inr None"
  using assms by (simp add: get_next_planned_block_def get_today_blocks_eq filter_sort)

lemma RunSessionResponse_validate_fields [simp]:
  "rr_block (RunSessionResponse_validate r) = rr_block r"
  "rr_actions (RunSessionResponse_validate r) = rr_actions r"
  "rr_warnings (RunSessionResponse_validate r) = map strip (rr_warnings r)"
  by (simp_all add: RunSessionResponse_validate_def)

lemma Block_validate_ids [simp]:
  "b_id (Block_validate b) = strip (b_id b)"
  "b_mission_id (Block_validate b) = strip (b_mission_id b)"
  by (simp_all add: Block_validate_def)

lemma strip_Nil [simp]: "strip [] = []"
  by (simp add: strip_def)

lemma load_context_result:
  assumes "(case truthy_str (rs_block_id (co_request st)) of
              Some block_id \<Rightarrow> Inr (get_block s block_id)
            | None \<Rightarrow> get_current_block s (co_user_id st)) = Inr blk"
    and "starts_of_one_kind (scheduled_today s (co_user_id st))"
  shows "\<exists>st'. load_context (st, s) = Inr (st', s) \<and>
     co_mission st' =
       (case truthy_str (rs_mission_id (co_request st)) of
          Some mission_id \<Rightarrow> get_mission s mission_id
        | None \<Rightarrow> get_active_mission s (co_user_id st)) \<and>
     co_current_block st' = blk \<and>
     co_request st' = co_request st \<and> co_user_id st' = co_user_id st \<and>
     co_errors st' = co_errors st \<and> co_selected_block st' = co_selected_block st \<and>
     co_actions st' = co_actions st \<and> co_recommended_duration st' = co_recommended_duration st"
  using assms by (simp add: load_context_def Let_def get_today_blocks_eq)

lemma decide_block_nothing:
  assumes "co_current_block st = None"
    and "truthy_str (rs_block_id (co_request st)) = None"
    and "co_mission st = None"
    and "starts_of_one_kind (scheduled_today s (co_user_id st))"
    and "filter (\<lambda>b. b_status b = PLANNED) (scheduled_today s (co_user_id st)) = []"
  shows "decide_block (st, s) =
           Inr (st\<lparr>co_errors := co_errors st @ [''No mission or block available'']\<rparr>, s)"
proof -
  have "get_next_planned_block s (co_user_id st) None = Inr None"
    using assms(4,5) by (intro get_next_planned_block_today) (simp_all add: truthy_str_def)
  then show ?thesis
    using assms by (simp add: decide_block_def Let_def truthy_str_def)
qed

lemma generate_brief_no_selection:
  assumes "co_selected_block st = None"
  shows "generate_brief (st, s) =
           Inr (st\<lparr>co_brief :=
                      Some (''Let'' @ [CHR 0x27] @
                            ''s get you started. What would you like to work on?''),
                    co_actions := Some []\<rparr>, s)"
  using assms by (simp add: generate_brief_def Let_def)

lemma start_session_no_selection:
  assumes "co_selected_block st = None"
  shows "start_session (st, s) = Inr (st, s)"
  using assms by (simp add: start_session_def Let_def)

lemma run_coach_of_graph:
  assumes "coach_graph
             (\<lparr>co_user_id = user_id, co_request = req, co_mission = None,
               co_current_block = None, co_today_blocks = None, co_selected_block = None,
               co_is_continuation = None, co_brief = None, co_actions = None,
               co_recommended_duration = None, co_ui_state = None, co_errors = []\<rparr>, s) =
           Inr (final_state, s')"
  shows "run_coach s user_id req =
     (let (block, s'') =
            (case co_selected_block final_state of
               Some b \<Rightarrow> (b, s')
             | None \<Rightarrow>
                 (let (i, s1) = new_id s' in
                  (Block_validate
                     \<lparr>b_id = i, b_user_id = user_id, b_mission_id = [],
                      b_sequence_index = None, b_scheduled_start = None,
                      b_scheduled_end = None, b_planned_duration_minutes = None,
                      b_actual_start = None, b_actual_end = None,
                      b_status = PLANNED, b_title = None, b_plan_note = None,
                      b_outcome_note = None, b_completion_ratio = None,
                      b_location_hint = None, b_device_hint = None\<rparr>, s1)))
      in Inr (RunSessionResponse_validate
                \<lparr>rr_block = block,
                 rr_actions =
                   map SessionAction_validate
                     (case co_actions final_state of None \<Rightarrow> [] | Some a \<Rightarrow> a),
                 rr_brief =
                   (case co_brief final_state of
                      None \<Rightarrow> ''Ready to focus?'' | Some b \<Rightarrow> b),
                 rr_recommended_duration_minutes =
                   (case co_recommended_duration final_state of
                      None \<Rightarrow> 25 | Some d \<Rightarrow> d),
                 rr_break_after_minutes = None,
                 rr_show_timer = True, rr_enable_leak_tracking = True,
                 rr_warnings = co_errors final_state\<rparr>, s''))"
  unfolding run_coach_def Let_def assms by simp

text \<open>
  C3, as amended. For every user who has no active mission, no block in progress and no
  planned block scheduled for today, and whose blocks scheduled for today have start
  times of one kind (all naive or all timezone-aware), the coach graph on a request
  that carries neither a mission id nor a block id returns a response whose warnings are
  not empty and whose block is a placeholder: status \<^verbatim>\<open>planned\<close>, no mission, no
  duration, and not stored in the repository. (When today's blocks mix naive and aware
  start times, sorting them raises \<^verbatim>\<open>TypeError\<close>: \<open>run_coach_mixed_kinds_raises\<close>.)
\<close>

theorem run_coach_no_mission_no_block:
  assumes "active_missions s user_id = []"
    and "in_progress_blocks s user_id = []"
    and "filter (\<lambda>b. b_status b = PLANNED) (scheduled_today s user_id) = []"
    and "starts_of_one_kind (scheduled_today s user_id)"
    and "truthy_str (rs_mission_id req) = None"
    and "truthy_str (rs_block_id req) = None"
  shows "\<exists>resp s'. run_coach s user_id req = Inr (resp, s') \<and>
           rr_warnings resp \<noteq> [] \<and>
           b_status (rr_block resp) = PLANNED \<and>
           b_mission_id (rr_block resp) = [] \<and>
           b_planned_duration_minutes (rr_block resp) = None \<and>
           rr_actions resp = [] \<and>
           blocks s' = blocks s"
proof -
  define st0 where "st0 = \<lparr>co_user_id = user_id, co_request = req, co_mission = None,
             co_current_block = None, co_today_blocks = None, co_selected_block = None,
             co_is_continuation = None, co_brief = None, co_actions = None,
             co_recommended_duration = None, co_ui_state = None, co_errors = []\<rparr>"
  have f0: "co_user_id st0 = user_id" "co_request st0 = req" "co_errors st0 = []"
    "co_selected_block st0 = None"
    by (simp_all add: st0_def)
  have cur: "(case truthy_str (rs_block_id (co_request st0)) of
              Some block_id \<Rightarrow> Inr (get_block s block_id)
            | None \<Rightarrow> get_current_block s (co_user_id st0)) = Inr None"
    using assms(2,6) f0 by (simp add: get_current_block_none)
  have kind: "starts_of_one_kind (scheduled_today s (co_user_id st0))"
    using assms(4) f0 by simp
  obtain st1 where l: "load_context (st0, s) = Inr (st1, s)"
    and f1: "co_mission st1 = None" "co_current_block st1 = None" "co_request st1 = req"
      "co_user_id st1 = user_id" "co_errors st1 = []" "co_selected_block st1 = None"
    using load_context_result[OF cur kind] assms(1,5) f0
    by (auto simp: get_active_mission_none)
  define st2 where "st2 = st1\<lparr>co_errors := co_errors st1 @ [''No mission or block available'']\<rparr>"
  have d: "decide_block (st1, s) = Inr (st2, s)"
    unfolding st2_def using assms f1 by (intro decide_block_nothing) simp_all
  have f2: "co_selected_block st2 = None" "co_errors st2 = [''No mission or block available'']"
    using f1 by (simp_all add: st2_def)
  define st3 where "st3 = st2\<lparr>co_brief :=
                      Some (''Let'' @ [CHR 0x27] @
                            ''s get you started. What would you like to work on?''),
                    co_actions := Some []\<rparr>"
  have b: "generate_brief (st2, s) = Inr (st3, s)"
    unfolding st3_def using f2 by (intro generate_brief_no_selection)
  have f3: "co_selected_block st3 = None" "co_errors st3 = [''No mission or block available'']"
    "co_actions st3 = Some []"
    using f2 by (simp_all add: st3_def)
  have ss: "start_session (st3, s) = Inr (st3, s)"
    using f3 by (intro start_session_no_selection)
  have g: "coach_graph (st0, s) = Inr (st3, s)"
    by (simp add: coach_graph_def then_node_def l d b ss)
  show ?thesis
    unfolding run_coach_of_graph[OF g[unfolded st0_def]]
    by (simp add: f3 Let_def split_def new_id_def)
qed

lemma create_block_first:
  assumes "filter (\<lambda>b. b_mission_id b = m) (map snd (blocks s)) = []"
  shows "create_block s user_id m None None None d =
           Inr (new_block_of s user_id m d,
                s\<lparr>id_calls := Suc (id_calls s),
                  blocks := AList.update (b_id (new_block_of s user_id m d))
                              (new_block_of s user_id m d) (blocks s)\<rparr>)"
  by (simp add: create_block_def list_for_mission_no_blocks[OF assms] Let_def split_def
      new_id_def blocks_repo_create_def new_block_of_def Block_validate_def)

lemma decide_block_create:
  assumes "co_current_block st = None"
    and "(case truthy_str (rs_block_id (co_request st)) of
            None \<Rightarrow> None | Some block_id \<Rightarrow> get_block s block_id) = None"
    and "co_mission st = Some mission"
    and "truthy_str (Some (m_id mission)) = Some m"
    and "filter (\<lambda>b. b_mission_id b = m) (map snd (blocks s)) = []"
    and "create_block s (co_user_id st) m None None None
           (case rs_available_minutes (co_request st) of
              None \<Rightarrow> 25 | Some a \<Rightarrow> if a \<noteq> 0 then a else 25) = Inr (new_block, s1)"
  shows "decide_block (st, s) =
           Inr (st\<lparr>co_selected_block := Some new_block, co_is_continuation := Some False\<rparr>, s1)"
proof -
  have "get_next_planned_block s (co_user_id st) (Some (m_id mission)) = Inr None"
    using assms(4,5) by (rule get_next_planned_block_of_mission)
  then show ?thesis
    using assms by (simp add: decide_block_def Let_def)
qed

lemma decide_block_requested:
  assumes "co_current_block st = Some b"
    and "b_status b \<noteq> IN_PROGRESS"
    and "truthy_str (rs_block_id (co_request st)) = Some block_id"
    and "get_block s block_id = Some b"
  shows "decide_block (st, s) =
           Inr (st\<lparr>co_selected_block := Some b, co_is_continuation := Some False\<rparr>, s)"
  using assms by (simp add: decide_block_def Let_def)

lemma strip_review: "strip ''Review what you completed'' = ''Review what you completed''"
  by code_simp

lemma SessionAction_validate_stretch: "SessionAction_validate stretch_action = stretch_action"
  by (simp add: SessionAction_validate_def stretch_action_def strip_review)

lemma generate_brief_duration:
  assumes "co_selected_block st = Some b" and "b_planned_duration_minutes b = Some d"
  shows "\<exists>st' a. generate_brief (st, s) = Inr (st', s) \<and>
           co_selected_block st' = Some b \<and> co_errors st' = co_errors st \<and>
           co_recommended_duration st' = Some d \<and>
           co_actions st' = Some (a # (if 40 \<le> d then [stretch_action] else []))"
  using assms
  by (simp add: generate_brief_def Let_def SessionAction_validate_stretch[unfolded stretch_action_def]
      stretch_action_def)

lemma generate_brief_no_duration:
  assumes "co_selected_block st = Some b" and "b_planned_duration_minutes b = None"
  shows "generate_brief (st, s) =
           Inl (TypeError ''>= not supported between NoneType and int'')"
  using assms by (simp add: generate_brief_def Let_def)

lemma start_block_result:
  assumes "blocks_repo_get s block_id = Some b" and "b_id b = block_id"
  shows "start_block s block_id =
           Inr (Some (b\<lparr>b_status := IN_PROGRESS, b_actual_start := Some (Aware (now_utc s) 0)\<rparr>),
                s\<lparr>blocks := AList.update block_id
                     (b\<lparr>b_status := IN_PROGRESS, b_actual_start := Some (Aware (now_utc s) 0)\<rparr>)
                     (blocks s)\<rparr>)"
  using assms by (simp add: start_block_def blocks_repo_update_def blocks_repo_get_def Let_def)

lemma start_session_starts:
  assumes "co_selected_block st = Some b" and "b_status b \<noteq> IN_PROGRESS"
    and "blocks_repo_get s (b_id b) = Some b"
  shows "\<exists>st'. start_session (st, s) =
             Inr (st', s\<lparr>blocks := AList.update (b_id b)
                          (b\<lparr>b_status := IN_PROGRESS,
                             b_actual_start := Some (Aware (now_utc s) 0)\<rparr>)
                          (blocks s)\<rparr>) \<and>
           co_selected_block st' =
             Some (b\<lparr>b_status := IN_PROGRESS, b_actual_start := Some (Aware (now_utc s) 0)\<rparr>) \<and>
           co_actions st' = co_actions st \<and> co_errors st' = co_errors st \<and>
           co_recommended_duration st' = co_recommended_duration st"
  using assms start_block_result[OF assms(3) refl]
  by (simp add: start_session_def Let_def)

lemma truthy_str_Some: "truthy_str x = Some v \<Longrightarrow> x = Some v \<and> v \<noteq> []"
  by (auto simp: truthy_str_def split: option.splits if_splits)

text \<open>
  C6, as amended. For every request whose mission id resolves to a mission with no
  blocks, with 45 available minutes, for which \<^verbatim>\<open>_load_context\<close> finds no block (the
  request's block id, if it has one, resolves to no block; if it has none, the user has
  no block in progress), and for a user whose blocks scheduled for today have start
  times of one kind, the coach graph creates a new block: the block with the next new id
  that belongs to the user and to the mission, is the mission's first block and has 45
  planned minutes. The graph stores it in the repository under its id, starts it, and
  returns it; the response's actions include the five-minute stretch-goal action.
\<close>

theorem run_coach_new_block_for_mission:
  assumes "truthy_str (rs_mission_id req) = Some m"
    and "get_mission s m = Some mission" and "m_id mission = m"
    and "filter (\<lambda>b. b_mission_id b = m) (map snd (blocks s)) = []"
    and "rs_available_minutes req = Some 45"
    and "case truthy_str (rs_block_id req) of
           None \<Rightarrow> in_progress_blocks s user_id = []
         | Some block_id \<Rightarrow> get_block s block_id = None"
    and "starts_of_one_kind (scheduled_today s user_id)"
  shows "\<exists>resp s'. run_coach s user_id req = Inr (resp, s') \<and>
           rr_block resp =
             (new_block_of s user_id m 45)
               \<lparr>b_status := IN_PROGRESS, b_actual_start := Some (Aware (now_utc s) 0)\<rparr> \<and>
           blocks s' = AList.update (b_id (rr_block resp)) (rr_block resp) (blocks s) \<and>
           blocks_repo_get s' (b_id (rr_block resp)) = Some (rr_block resp) \<and>
           b_planned_duration_minutes (rr_block resp) = Some 45 \<and>
           stretch_action \<in> set (rr_actions resp) \<and>
           rr_warnings resp = []"
proof -
  define st0 where "st0 = \<lparr>co_user_id = user_id, co_request = req, co_mission = None,
             co_current_block = None, co_today_blocks = None, co_selected_block = None,
             co_is_continuation = None, co_brief = None, co_actions = None,
             co_recommended_duration = None, co_ui_state = None, co_errors = []\<rparr>"
  have f0: "co_user_id st0 = user_id" "co_request st0 = req" "co_errors st0 = []"
    by (simp_all add: st0_def)
  have cur: "(case truthy_str (rs_block_id (co_request st0)) of
              Some block_id \<Rightarrow> Inr (get_block s block_id)
            | None \<Rightarrow> get_current_block s (co_user_id st0)) = Inr None"
    using assms(6) f0 by (simp add: get_current_block_none split: option.splits)
  have kind: "starts_of_one_kind (scheduled_today s (co_user_id st0))"
    using assms(7) f0 by simp
  obtain st1 where l: "load_context (st0, s) = Inr (st1, s)"
    and f1: "co_mission st1 = Some mission" "co_current_block st1 = None"
      "co_request st1 = req" "co_user_id st1 = user_id" "co_errors st1 = []"
    using load_context_result[OF cur kind] assms(1,2) f0 by auto
  have req_none: "(case truthy_str (rs_block_id (co_request st1)) of
            None \<Rightarrow> None | Some block_id \<Rightarrow> get_block s block_id) = None"
    using assms(6) f1(3) by (simp split: option.splits)
  have tm: "truthy_str (Some (m_id mission)) = Some m"
    using truthy_str_Some[OF assms(1)] assms(3) by (simp add: truthy_str_def)
  define blk where "blk = new_block_of s user_id m 45"
  define s1 where "s1 = s\<lparr>id_calls := Suc (id_calls s),
                          blocks := AList.update (b_id blk) blk (blocks s)\<rparr>"
  have cb: "create_block s user_id m None None None 45 = Inr (blk, s1)"
    unfolding blk_def s1_def by (rule create_block_first[OF assms(4)])
  have nb: "b_planned_duration_minutes blk = Some 45" "b_status blk = PLANNED"
    "blocks_repo_get s1 (b_id blk) = Some blk" "now_utc s1 = now_utc s"
    by (simp_all add: blk_def s1_def new_block_of_def blocks_repo_get_def update_conv')
  define st2 where
    "st2 = st1\<lparr>co_selected_block := Some blk, co_is_continuation := Some False\<rparr>"
  have d: "decide_block (st1, s) = Inr (st2, s1)"
    unfolding st2_def
    by (rule decide_block_create[OF f1(2) req_none f1(1) tm assms(4)])
      (simp add: f1 assms(5) cb)
  have f2: "co_selected_block st2 = Some blk" "co_errors st2 = []"
    using f1 by (simp_all add: st2_def)
  from generate_brief_duration[OF f2(1) nb(1), of s1] obtain st3 a where
    b: "generate_brief (st2, s1) = Inr (st3, s1)"
    and f3: "co_selected_block st3 = Some blk" "co_errors st3 = []"
      "co_actions st3 = Some [a, stretch_action]"
    using f2(2) by auto
  have np: "b_status blk \<noteq> IN_PROGRESS" using nb(2) by simp
  define blk' where
    "blk' = blk\<lparr>b_status := IN_PROGRESS, b_actual_start := Some (Aware (now_utc s) 0)\<rparr>"
  define s4 where "s4 = s1\<lparr>blocks := AList.update (b_id blk) blk' (blocks s1)\<rparr>"
  from start_session_starts[OF f3(1) np nb(3)] obtain st4 where
    ss: "start_session (st3, s1) = Inr (st4, s4)"
    and f4: "co_selected_block st4 = Some blk'"
      "co_actions st4 = Some [a, stretch_action]" "co_errors st4 = []"
    using f3 nb(4) by (auto simp: blk'_def s4_def)
  have g: "coach_graph (st0, s) = Inr (st4, s4)"
    by (simp add: coach_graph_def then_node_def l d b ss)
  have ids: "b_id blk' = b_id blk" by (simp add: blk'_def)
  have stored: "blocks s4 = AList.update (b_id blk') blk' (blocks s)"
    by (simp add: s4_def s1_def ids)
  have r: "run_coach s user_id req =
      Inr (RunSessionResponse_validate
             \<lparr>rr_block = blk', rr_actions = map SessionAction_validate [a, stretch_action],
              rr_brief = (case co_brief st4 of None \<Rightarrow> ''Ready to focus?'' | Some b \<Rightarrow> b),
              rr_recommended_duration_minutes =
                (case co_recommended_duration st4 of None \<Rightarrow> 25 | Some d \<Rightarrow> d),
              rr_break_after_minutes = None, rr_show_timer = True,
              rr_enable_leak_tracking = True, rr_warnings = []\<rparr>, s4)"
    unfolding run_coach_of_graph[OF g[unfolded st0_def]] by (simp add: f4)
  show ?thesis
    unfolding r
    by (simp add: stored blocks_repo_get_def update_conv' SessionAction_validate_stretch)
      (simp add: blk'_def blk_def new_block_of_def)
qed

text \<open>
  A user with a paused mission and one completed block today gets the warning and a
  placeholder block; the repository still holds the one block.
\<close>

theorem run_coach_no_mission_no_block_witness:
  "active_missions idle_user_sys ''u1'' = [] \<and>
   in_progress_blocks idle_user_sys ''u1'' = [] \<and>
   map b_id (scheduled_today idle_user_sys ''u1'') = [''b1''] \<and>
   filter (\<lambda>b. b_status b = PLANNED) (scheduled_today idle_user_sys ''u1'') = [] \<and>
   starts_of_one_kind (scheduled_today idle_user_sys ''u1'') \<and>
   coach_view (run_coach idle_user_sys ''u1'' (session_request None None None)) =
     Some (''id-0'', PLANNED, None, [''No mission or block available''], [], 1)"
proof -
  have h: "active_missions idle_user_sys ''u1'' = []"
    "in_progress_blocks idle_user_sys ''u1'' = []"
    "filter (\<lambda>b. b_status b = PLANNED) (scheduled_today idle_user_sys ''u1'') = []"
    "starts_of_one_kind (scheduled_today idle_user_sys ''u1'')"
    "truthy_str (rs_mission_id (session_request None None None)) = None"
    "truthy_str (rs_block_id (session_request None None None)) = None"
    by code_simp+
  have t: "map b_id (scheduled_today idle_user_sys ''u1'') = [''b1'']"
    by code_simp
  have v: "coach_view (run_coach idle_user_sys ''u1'' (session_request None None None)) =
     Some (''id-0'', PLANNED, None, [''No mission or block available''], [], 1)"
    by code_simp
  from run_coach_no_mission_no_block[OF h] obtain resp s' where
    "run_coach idle_user_sys ''u1'' (session_request None None None) = Inr (resp, s')"
    "b_status (rr_block resp) = PLANNED"
    by blast
  then show ?thesis using h t v by simp
qed

text \<open>
  C3 as stated fails for a user without an active mission and without a block in progress
  who has a planned block scheduled today: \<^verbatim>\<open>_decide_block\<close> selects that block, the
  response has no warning, and its block is the stored one, now in progress.
\<close>

theorem planned_block_today_counterexample:
  "active_missions planned_today_sys ''u1'' = [] \<and>
   in_progress_blocks planned_today_sys ''u1'' = [] \<and>
   coach_view (run_coach planned_today_sys ''u1'' (session_request None None None)) =
     Some (''b1'', IN_PROGRESS, Some 25, [], [False], 1)"
  by code_simp

lemma run_coach_mixed_kinds_raises:
  "active_missions mixed_kinds_sys ''u1'' = [] \<and>
   in_progress_blocks mixed_kinds_sys ''u1'' = [] \<and>
   filter (\<lambda>b. b_status b = PLANNED) (scheduled_today mixed_kinds_sys ''u1'') = [] \<and>
   coach_error (run_coach mixed_kinds_sys ''u1'' (session_request None None None)) =
     Some naive_aware_error"
  by code_simp

text \<open>
  Scenario C on repositories that hold the mission only: the new block has the id
  \<^verbatim>\<open>id-0\<close>, the user \<^verbatim>\<open>u1\<close> and the mission \<^verbatim>\<open>m2\<close>, and is stored as returned.
\<close>

theorem run_coach_new_block_for_mission_witness:
  "get_mission fresh_mission_sys ''m2'' = Some (example_mission ''m2'' MS_ACTIVE) \<and>
   filter (\<lambda>b. b_mission_id b = ''m2'') (map snd (blocks fresh_mission_sys)) = [] \<and>
   in_progress_blocks fresh_mission_sys ''u1'' = [] \<and>
   starts_of_one_kind (scheduled_today fresh_mission_sys ''u1'') \<and>
   coach_view (run_coach fresh_mission_sys ''u1'' (session_request (Some ''m2'') None (Some 45))) =
     Some (''id-0'', IN_PROGRESS, Some 45, [], [False, True], 1) \<and>
   coach_block (run_coach fresh_mission_sys ''u1'' (session_request (Some ''m2'') None (Some 45))) =
     Some \<lparr>b_id = ''id-0'', b_user_id = ''u1'', b_mission_id = ''m2'',
           b_sequence_index = Some 0, b_scheduled_start = None, b_scheduled_end = None,
           b_planned_duration_minutes = Some 45,
           b_actual_start = Some (Aware (now_utc fresh_mission_sys) 0), b_actual_end = None,
           b_status = IN_PROGRESS, b_title = None, b_plan_note = None, b_outcome_note = None,
           b_completion_ratio = None, b_location_hint = None, b_device_hint = None\<rparr> \<and>
   stored_block
     (run_coach fresh_mission_sys ''u1'' (session_request (Some ''m2'') None (Some 45))) ''id-0'' =
   coach_block (run_coach fresh_mission_sys ''u1'' (session_request (Some ''m2'') None (Some 45)))"
proof -
  let ?req = "session_request (Some ''m2'') None (Some 45)"
  have h: "truthy_str (rs_mission_id ?req) = Some ''m2''"
    "get_mission fresh_mission_sys ''m2'' = Some (example_mission ''m2'' MS_ACTIVE)"
    "m_id (example_mission ''m2'' MS_ACTIVE) = ''m2''"
    "filter (\<lambda>b. b_mission_id b = ''m2'') (map snd (blocks fresh_mission_sys)) = []"
    "rs_available_minutes ?req = Some 45"
    "case truthy_str (rs_block_id ?req) of
           None \<Rightarrow> in_progress_blocks fresh_mission_sys ''u1'' = []
         | Some block_id \<Rightarrow> get_block fresh_mission_sys block_id = None"
    "starts_of_one_kind (scheduled_today fresh_mission_sys ''u1'')"
    by code_simp+
  have c: "in_progress_blocks fresh_mission_sys ''u1'' = []" by code_simp
  have v: "coach_view (run_coach fresh_mission_sys ''u1'' ?req) =
     Some (''id-0'', IN_PROGRESS, Some 45, [], [False, True], 1)"
    by code_simp
  have n: "new_block_of fresh_mission_sys ''u1'' ''m2'' 45 =
      \<lparr>b_id = ''id-0'', b_user_id = ''u1'', b_mission_id = ''m2'',
       b_sequence_index = Some 0, b_scheduled_start = None, b_scheduled_end = None,
       b_planned_duration_minutes = Some 45, b_actual_start = None, b_actual_end = None,
       b_status = PLANNED, b_title = None, b_plan_note = None, b_outcome_note = None,
       b_completion_ratio = None, b_location_hint = None, b_device_hint = None\<rparr>"
    by code_simp
  from run_coach_new_block_for_mission[OF h, unfolded n] obtain resp s' where
    "run_coach fresh_mission_sys ''u1'' ?req = Inr (resp, s')"
    "rr_block resp =
       \<lparr>b_id = ''id-0'', b_user_id = ''u1'', b_mission_id = ''m2'',
        b_sequence_index = Some 0, b_scheduled_start = None, b_scheduled_end = None,
        b_planned_duration_minutes = Some 45, b_actual_start = None, b_actual_end = None,
        b_status = PLANNED, b_title = None, b_plan_note = None, b_outcome_note = None,
        b_completion_ratio = None, b_location_hint = None, b_device_hint = None\<rparr>
       \<lparr>b_status := IN_PROGRESS, b_actual_start := Some (Aware (now_utc fresh_mission_sys) 0)\<rparr>"
    "blocks_repo_get s' (b_id (rr_block resp)) = Some (rr_block resp)"
    by blast
  then show ?thesis using h c v by (simp add: coach_block_def stored_block_def)
qed

text \<open>
  C6 as stated fails when the user has a block in progress in another mission: that
  block is selected as a continuation, no block is created, and the response has the
  25-minute block and no stretch-goal action.
\<close>

theorem block_in_progress_counterexample:
  "get_mission busy_user_sys ''m2'' = Some (example_mission ''m2'' MS_ACTIVE) \<and>
   filter (\<lambda>b. b_mission_id b = ''m2'') (map snd (blocks busy_user_sys)) = [] \<and>
   coach_view (run_coach busy_user_sys ''u1'' (session_request (Some ''m2'') None (Some 45))) =
     Some (''b1'', IN_PROGRESS, Some 25, [], [False], 1)"
  by code_simp

lemma run_coach_requested_block_started:
  assumes "truthy_str (rs_block_id req) = Some block_id"
    and "get_block s block_id = Some b" and "b_id b = block_id"
    and "b_status b \<noteq> IN_PROGRESS"
    and "b_planned_duration_minutes b = Some d"
    and "starts_of_one_kind (scheduled_today s user_id)"
  shows "\<exists>resp s'. run_coach s user_id req = Inr (resp, s') \<and>
           rr_block resp =
             b\<lparr>b_status := IN_PROGRESS, b_actual_start := Some (Aware (now_utc s) 0)\<rparr> \<and>
           blocks_repo_get s' block_id = Some (rr_block resp)"
proof -
  define st0 where "st0 = \<lparr>co_user_id = user_id, co_request = req, co_mission = None,
             co_current_block = None, co_today_blocks = None, co_selected_block = None,
             co_is_continuation = None, co_brief = None, co_actions = None,
             co_recommended_duration = None, co_ui_state = None, co_errors = []\<rparr>"
  have f0: "co_user_id st0 = user_id" "co_request st0 = req"
    by (simp_all add: st0_def)
  have cur: "(case truthy_str (rs_block_id (co_request st0)) of
              Some block_id \<Rightarrow> Inr (get_block s block_id)
            | None \<Rightarrow> get_current_block s (co_user_id st0)) = Inr (Some b)"
    using assms(1,2) f0 by simp
  have kind: "starts_of_one_kind (scheduled_today s (co_user_id st0))"
    using assms(6) f0 by simp
  obtain st1 where l: "load_context (st0, s) = Inr (st1, s)"
    and f1: "co_current_block st1 = Some b" "co_request st1 = req"
    using load_context_result[OF cur kind] f0 by auto
  define st2 where "st2 = st1\<lparr>co_selected_block := Some b, co_is_continuation := Some False\<rparr>"
  have d: "decide_block (st1, s) = Inr (st2, s)"
    unfolding st2_def
    by (rule decide_block_requested[OF f1(1) assms(4) _ assms(2)]) (simp add: f1 assms(1))
  have f2: "co_selected_block st2 = Some b" by (simp add: st2_def)
  from generate_brief_duration[OF f2 assms(5), of s] obtain st3 where
    g3: "generate_brief (st2, s) = Inr (st3, s)" and f3: "co_selected_block st3 = Some b"
    by auto
  have stored: "blocks_repo_get s (b_id b) = Some b"
    using assms(2,3) by (simp add: get_block_def)
  from start_session_starts[OF f3 assms(4) stored] obtain st4 s4 where
    ss: "start_session (st3, s) = Inr (st4, s4)"
    and f4: "co_selected_block st4 =
        Some (b\<lparr>b_status := IN_PROGRESS, b_actual_start := Some (Aware (now_utc s) 0)\<rparr>)"
      "blocks s4 = AList.update (b_id b)
         (b\<lparr>b_status := IN_PROGRESS, b_actual_start := Some (Aware (now_utc s) 0)\<rparr>) (blocks s)"
    by auto
  have g: "coach_graph (st0, s) = Inr (st4, s4)"
    by (simp add: coach_graph_def then_node_def l d g3 ss)
  show ?thesis
    unfolding run_coach_of_graph[OF g[unfolded st0_def]]
    using f4 assms(3) by (simp add: blocks_repo_get_def update_conv')
qed

lemma run_coach_requested_block_no_duration:
  assumes "truthy_str (rs_block_id req) = Some block_id"
    and "get_block s block_id = Some b"
    and "b_status b \<noteq> IN_PROGRESS"
    and "b_planned_duration_minutes b = None"
    and "starts_of_one_kind (scheduled_today s user_id)"
  shows "run_coach s user_id req =
           Inl (TypeError ''>= not supported between NoneType and int'')"
proof -
  define st0 where "st0 = \<lparr>co_user_id = user_id, co_request = req, co_mission = None,
             co_current_block = None, co_today_blocks = None, co_selected_block = None,
             co_is_continuation = None, co_brief = None, co_actions = None,
             co_recommended_duration = None, co_ui_state = None, co_errors = []\<rparr>"
  have f0: "co_user_id st0 = user_id" "co_request st0 = req"
    by (simp_all add: st0_def)
  have cur: "(case truthy_str (rs_block_id (co_request st0)) of
              Some block_id \<Rightarrow> Inr (get_block s block_id)
            | None \<Rightarrow> get_current_block s (co_user_id st0)) = Inr (Some b)"
    using assms(1,2) f0 by simp
  have kind: "starts_of_one_kind (scheduled_today s (co_user_id st0))"
    using assms(5) f0 by simp
  obtain st1 where l: "load_context (st0, s) = Inr (st1, s)"
    and f1: "co_current_block st1 = Some b" "co_request st1 = req"
    using load_context_result[OF cur kind] f0 by auto
  define st2 where "st2 = st1\<lparr>co_selected_block := Some b, co_is_continuation := Some False\<rparr>"
  have d: "decide_block (st1, s) = Inr (st2, s)"
    unfolding st2_def
    by (rule decide_block_requested[OF f1(1) assms(3) _ assms(2)]) (simp add: f1 assms(1))
  have f2: "co_selected_block st2 = Some b" by (simp add: st2_def)
  have g: "coach_graph (st0, s) = Inl (TypeError ''>= not supported between NoneType and int'')"
    by (simp add: coach_graph_def then_node_def l d
        generate_brief_no_duration[OF f2 assms(4)])
  show ?thesis
    unfolding run_coach_def Let_def g[unfolded st0_def] by simp
qed

text \<open>
  C10. For every request whose block id resolves to a block that is not in progress, the
  coach graph is to select the block, whatever its status, and start it. It does so for a
  block that has a planned duration (\<open>run_coach_requested_block_started\<close>). For a block
  whose \<^verbatim>\<open>planned_duration_minutes\<close> is \<^verbatim>\<open>None\<close>, the field's default,
  \<^verbatim>\<open>_generate_brief\<close> raises \<^verbatim>\<open>TypeError\<close> before the block is started
  (\<open>run_coach_requested_block_no_duration\<close>); here on a completed block.
\<close>

theorem run_coach_block_without_duration_raises:
  "run_coach no_duration_sys ''u1'' (session_request None (Some ''b1'') None) =
     Inl (TypeError ''>= not supported between NoneType and int'')"
proof (rule run_coach_requested_block_no_duration)
  show "truthy_str (rs_block_id (session_request None (Some ''b1'') None)) = Some ''b1''"
    by code_simp
  show "get_block no_duration_sys ''b1'' = Some (example_block ''b1'' ''m1'' COMPLETED None)"
    by code_simp
  show "b_status (example_block ''b1'' ''m1'' COMPLETED None) \<noteq> IN_PROGRESS"
    by (simp add: example_block_def)
  show "b_planned_duration_minutes (example_block ''b1'' ''m1'' COMPLETED None) = None"
    by (simp add: example_block_def)
  show "starts_of_one_kind (scheduled_today no_duration_sys ''u1'')"
    by code_simp
qed

lemma run_coach_completed_block_restarted:
  "coach_view (run_coach completed_block_sys ''u1'' (session_request None (Some ''b1'') None)) =
     Some (''b1'', IN_PROGRESS, Some 25, [], [False], 1)"
  by code_simp

end
